theory Spec2Isabelle
  imports Complex_Main
begin

section \<open>Sensor firmware: \<open>firmware/firebeetle_esp32c6/main/main.cpp\<close>\<close>

subsection \<open>IEEE-754 arithmetic of the voltage conversion\<close>

text \<open>
  The conversion \<^verbatim>\<open>float voltage = (adc_raw / 4095.0) * 3.3 * 2;\<close> is evaluated in
  binary64 (\<open>double\<close>) and the result is narrowed to binary32 (\<open>float\<close>). A finite
  floating-point number is represented by its exact value, a rational. Every operation
  computes the exact result and rounds it to the nearest number with \<open>p\<close> significant
  bits, ties to the even significand (53 bits for \<open>double\<close>, 24 for \<open>float\<close>). The
  exponent range is not modelled: for a 32-bit \<open>adc_raw\<close> every intermediate value is
  zero or lies between \<open>2^-13\<close> and \<open>2^23\<close>, far from overflow and subnormals.
\<close>

fun bitlen :: "nat \<Rightarrow> nat" where
  "bitlen n = (if n = 0 then 0 else Suc (bitlen (n div 2)))"

declare bitlen.simps [simp del]

definition pow2 :: "int \<Rightarrow> rat" where
  "pow2 e = (if 0 \<le> e then 2 ^ nat e else 1 / 2 ^ nat (- e))"

text \<open>The exponent of a positive rational: the \<open>e\<close> with \<open>2^e \<le> x < 2^(e+1)\<close>.\<close>

definition floor_log2 :: "rat \<Rightarrow> int" where
  "floor_log2 x =
     (if 1 \<le> x then int (bitlen (nat \<lfloor>x\<rfloor>)) - 1
      else let e = 1 - int (bitlen (nat \<lfloor>1 / x\<rfloor>))
           in if pow2 e \<le> x then e else e - 1)"

definition round_half_even :: "rat \<Rightarrow> int" where
  "round_half_even x =
     (let f = \<lfloor>x\<rfloor>; d = x - of_int f
      in if d < 1 / 2 then f else if 1 / 2 < d then f + 1
         else if even f then f else f + 1)"

definition round_to_precision :: "nat \<Rightarrow> rat \<Rightarrow> rat" where
  "round_to_precision p x =
     (if x = 0 then 0
      else let e = floor_log2 \<bar>x\<bar>; ulp = pow2 (e - int p + 1)
           in of_int (round_half_even (x / ulp)) * ulp)"

definition to_double :: "rat \<Rightarrow> rat" where
  "to_double x = round_to_precision 53 x"

definition to_float :: "rat \<Rightarrow> rat" where
  "to_float x = round_to_precision 24 x"

text \<open>
  \<^verbatim>\<open>(adc_raw / 4095.0) * 3.3 * 2\<close>: \<open>adc_raw\<close> is converted to \<open>double\<close> (exactly, for
  a 32-bit \<open>int\<close>), \<open>4095.0\<close> and \<open>2\<close> are \<open>double\<close>s as they stand, the literal
  \<open>3.3\<close> is the \<open>double\<close> nearest to \<open>33/10\<close>, the division and the two products
  are rounded to \<open>double\<close>, and the initialisation of \<open>voltage\<close> rounds to \<open>float\<close>.
\<close>

definition voltage_of :: "int \<Rightarrow> rat" where
  "voltage_of adc_raw =
     to_float
       (to_double (to_double (to_double (to_double (of_int adc_raw) / 4095) * to_double (33 / 10)) * 2))"

subsection \<open>Device state and vendor calls\<close>

type_synonym esp_err_t = int

definition ESP_OK :: esp_err_t where
  "ESP_OK = 0"

text \<open>One of the errors \<open>adc_oneshot_read\<close> is documented to return.\<close>

definition ESP_ERR_TIMEOUT :: esp_err_t where
  "ESP_ERR_TIMEOUT = 0x107"

definition TAG :: string where
  "TAG = ''SENSOR_FW''"

definition LED_GPIO :: nat where
  "LED_GPIO = 15"

datatype esp_log_level = ESP_LOG_ERROR | ESP_LOG_WARN | ESP_LOG_INFO | ESP_LOG_DEBUG

datatype json_variant = JsonString string | JsonInt int | JsonFloat rat

type_synonym JsonDocument = "(string \<times> json_variant) list"

text \<open>\<^verbatim>\<open>doc[key] = v\<close>: replaces the member where the key exists, appends it otherwise.\<close>

fun doc_set :: "JsonDocument \<Rightarrow> string \<Rightarrow> json_variant \<Rightarrow> JsonDocument" where
  "doc_set [] k v = [(k, v)]"
| "doc_set ((k', v') # kvs) k v =
     (if k' = k then (k, v) # kvs else (k', v') # doc_set kvs k v)"

text \<open>
  A \<open>%s\<close> argument of a log call. \<open>SerializedJson d\<close> stands for the text that
  ArduinoJson's \<^verbatim>\<open>serializeJson(doc, buffer)\<close> writes for the document \<open>d\<close>; the
  library's number formatting is not part of this repository and is left uninterpreted
  (the two-member object is far shorter than the 128-byte buffer).
\<close>

datatype log_arg = SerializedJson JsonDocument

record log_line =
  level :: esp_log_level
  tag :: string
  fmt :: string
  args :: "log_arg list"

text \<open>
  The observable state: a millisecond clock that only \<open>vTaskDelay\<close> advances (the other
  calls are taken to be instantaneous), every \<open>gpio_set_level\<close> call with its time, the
  pins configured as outputs, the device log and the JSON document.
\<close>

record fw_state =
  clock_ms :: nat
  gpio_outputs :: "nat list"
  led_history :: "(nat \<times> nat \<times> nat) list"
  log_lines :: "log_line list"
  doc :: JsonDocument

definition fw_boot :: fw_state where
  "fw_boot = \<lparr>clock_ms = 0, gpio_outputs = [], led_history = [], log_lines = [], doc = []\<rparr>"

definition ESP_LOGI :: "string \<Rightarrow> string \<Rightarrow> log_arg list \<Rightarrow> fw_state \<Rightarrow> fw_state" where
  "ESP_LOGI t f as s =
     s\<lparr>log_lines := log_lines s @ [\<lparr>level = ESP_LOG_INFO, tag = t, fmt = f, args = as\<rparr>]\<rparr>"

definition gpio_config :: "nat \<Rightarrow> fw_state \<Rightarrow> fw_state" where
  "gpio_config pin s = s\<lparr>gpio_outputs := gpio_outputs s @ [pin]\<rparr>"

definition gpio_set_level :: "nat \<Rightarrow> nat \<Rightarrow> fw_state \<Rightarrow> fw_state" where
  "gpio_set_level pin lvl s = s\<lparr>led_history := led_history s @ [(clock_ms s, pin, lvl)]\<rparr>"

text \<open>\<^verbatim>\<open>vTaskDelay(pdMS_TO_TICKS(ms))\<close>: the task sleeps for \<open>ms\<close> milliseconds.\<close>

definition vTaskDelay_ms :: "nat \<Rightarrow> fw_state \<Rightarrow> fw_state" where
  "vTaskDelay_ms ms s = s\<lparr>clock_ms := clock_ms s + ms\<rparr>"

text \<open>
  Modelled from the spec: the ESP-IDF macro \<open>ESP_ERROR_CHECK\<close> is not defined in this
  repository. The specification describes it as the mechanism that makes a failure fatal:
  it "aborts rather than retries". A result other than \<open>ESP_OK\<close> ends the program
  (\<open>Inl\<close> with the error code), \<open>ESP_OK\<close> lets it go on.
\<close>

definition ESP_ERROR_CHECK :: "esp_err_t \<Rightarrow> esp_err_t + unit" where
  "ESP_ERROR_CHECK rc = (if rc = ESP_OK then Inr () else Inl rc)"

subsection \<open>\<open>app_main\<close>\<close>

text \<open>
  The results of the vendor calls are inputs: the status of \<open>adc_oneshot_new_unit\<close>, the
  status of \<open>adc_oneshot_config_channel\<close>, and for each iteration of the loop the pair
  (status, raw value) of \<open>adc_oneshot_read\<close>. An aborted run is \<open>Inl (rc, s)\<close>: the
  error code and the state reached.
\<close>

type_synonym adc_read = "esp_err_t \<times> int"

type_synonym fw_result = "(esp_err_t \<times> fw_state) + fw_state"

definition app_main_init :: "esp_err_t \<Rightarrow> esp_err_t \<Rightarrow> fw_result" where
  "app_main_init new_unit_rc config_channel_rc =
     (let s1 = ESP_LOGI TAG ''Starting Sensor Firmware (ESP-IDF + ArduinoJson)'' [] fw_boot;
          s2 = gpio_config LED_GPIO s1
      in case ESP_ERROR_CHECK new_unit_rc of
           Inl e \<Rightarrow> Inl (e, s2)
         | Inr _ \<Rightarrow>
             (case ESP_ERROR_CHECK config_channel_rc of
                Inl e \<Rightarrow> Inl (e, s2)
              | Inr _ \<Rightarrow>
                  Inr (s2\<lparr>doc := doc_set (doc_set (doc s2) ''sensor'' (JsonString ''battery''))
                                          ''value'' (JsonInt 0)\<rparr>)))"

text \<open>One iteration of \<^verbatim>\<open>while (1) { ... }\<close>.\<close>

definition loop_body :: "fw_state \<Rightarrow> adc_read \<Rightarrow> fw_result" where
  "loop_body s r =
     (let s1 = gpio_set_level LED_GPIO 1 s;
          s2 = vTaskDelay_ms 100 s1;
          s3 = gpio_set_level LED_GPIO 0 s2;
          s4 = vTaskDelay_ms 900 s3
      in case ESP_ERROR_CHECK (fst r) of
           Inl e \<Rightarrow> Inl (e, s4)
         | Inr _ \<Rightarrow>
             (let voltage = voltage_of (snd r);
                  s5 = s4\<lparr>doc := doc_set (doc s4) ''value'' (JsonFloat voltage)\<rparr>;
                  buffer = SerializedJson (doc s5)
              in Inr (ESP_LOGI TAG ''Telemetry: %s'' [buffer] s5)))"

text \<open>
  The loop has no exit of its own. It is run on the reads the hardware delivers: on a
  finite list of them it stops at the first abort, and otherwise returns the state
  reached after the last one, from which the loop would continue.
\<close>

fun sampling_loop :: "fw_state \<Rightarrow> adc_read list \<Rightarrow> fw_result" where
  "sampling_loop s [] = Inr s"
| "sampling_loop s (r # rs) =
     (case loop_body s r of Inl a \<Rightarrow> Inl a | Inr s' \<Rightarrow> sampling_loop s' rs)"

definition app_main :: "esp_err_t \<Rightarrow> esp_err_t \<Rightarrow> adc_read list \<Rightarrow> fw_result" where
  "app_main new_unit_rc config_channel_rc reads =
     (case app_main_init new_unit_rc config_channel_rc of
        Inl a \<Rightarrow> Inl a
      | Inr s \<Rightarrow> sampling_loop s reads)"

text \<open>The state a run has reached, aborted or not.\<close>

fun reached :: "fw_result \<Rightarrow> fw_state" where
  "reached (Inl (rc, s)) = s"
| "reached (Inr s) = s"

fun aborted :: "fw_result \<Rightarrow> bool" where
  "aborted (Inl a) = True"
| "aborted (Inr s) = False"

subsection \<open>Reference behaviour of the loop\<close>

text \<open>
  The number of iterations the loop runs on the given reads: every iteration up to and
  including the first one whose read fails.
\<close>

fun iterations_run :: "adc_read list \<Rightarrow> nat" where
  "iterations_run [] = 0"
| "iterations_run (r # rs) = (if fst r = ESP_OK then Suc (iterations_run rs) else 1)"

text \<open>
  The heartbeat described by the specification, as the \<open>gpio_set_level\<close> calls of \<open>n\<close>
  periods that start at time \<open>t\<close>: high at the start of a period, low 100 ms later,
  the next period 1000 ms after the start of this one.
\<close>

fun heartbeat_spec :: "nat \<Rightarrow> nat \<Rightarrow> (nat \<times> nat \<times> nat) list" where
  "heartbeat_spec t 0 = []"
| "heartbeat_spec t (Suc n) =
     (t, LED_GPIO, 1) # (t + 100, LED_GPIO, 0) # heartbeat_spec (t + 1000) n"

section \<open>Web dashboard: \<open>esp32_web_interface.h\<close>\<close>

subsection \<open>JavaScript values\<close>

text \<open>
  The values the page's script handles: what \<open>JSON.parse\<close> or an object literal
  yields, and \<open>undefined\<close> for a member that is not there. Numbers are integers (pin
  numbers, coordinates, the levels 0 and 1). An object is the list of its members in
  order, each key once.
\<close>

datatype jsval =
    JUndefined
  | JNull
  | JBool bool
  | JNum int
  | JStr string
  | JArr "jsval list"
  | JObj "(string \<times> jsval) list"

datatype js_error = TypeError

definition digit_char :: "nat \<Rightarrow> char" where
  "digit_char d = ''0123456789'' ! d"

fun nat_to_string :: "nat \<Rightarrow> string" where
  "nat_to_string n =
     (if n < 10 then [digit_char n] else nat_to_string (n div 10) @ [digit_char (n mod 10)])"

declare nat_to_string.simps [simp del]

definition int_to_string :: "int \<Rightarrow> string" where
  "int_to_string i = (if i < 0 then ''-'' @ nat_to_string (nat (- i)) else nat_to_string (nat i))"

fun join_with :: "string \<Rightarrow> string list \<Rightarrow> string" where
  "join_with sep [] = []"
| "join_with sep [s] = s"
| "join_with sep (s # t # ss) = s @ sep @ join_with sep (t # ss)"

text \<open>A sequence of steps that may throw: the first exception ends it.\<close>

definition js_bind :: "js_error + 'a \<Rightarrow> ('a \<Rightarrow> js_error + 'b) \<Rightarrow> js_error + 'b" where
  "js_bind m f = (case m of Inl e \<Rightarrow> Inl e | Inr v \<Rightarrow> f v)"

fun js_all :: "(js_error + 'a) list \<Rightarrow> js_error + 'a list" where
  "js_all [] = Inr []"
| "js_all (m # ms) =
     (case m of
        Inl e \<Rightarrow> Inl e
      | Inr v \<Rightarrow> (case js_all ms of Inl e \<Rightarrow> Inl e | Inr vs \<Rightarrow> Inr (v # vs)))"

text \<open>
  The text of a number. A safe integer (at most \<open>2^53 - 1\<close> in absolute value) is printed
  with all its decimal digits. Beyond that the engine prints the shortest digits that
  identify the number, and an exponent from \<open>10^21\<close> on (\<open>1e+21\<close>); that text is not
  computed here, it is the parameter \<open>big\<close>.
\<close>

type_synonym number_text = "int \<Rightarrow> string"

definition Number_toString :: "number_text \<Rightarrow> int \<Rightarrow> string" where
  "Number_toString big n = (if \<bar>n\<bar> \<le> 9007199254740991 then int_to_string n else big n)"

text \<open>
  \<open>ToString\<close>, as string concatenation and template literals apply it. An array is the
  comma-separated list of the texts of its elements, in order, \<open>null\<close> and \<open>undefined\<close>
  elements left empty. An object of the response has no callable member: with a member
  named \<open>toString\<close> of its own the conversion finds nothing to call and throws a
  \<open>TypeError\<close>; without one it is \<open>[object Object]\<close>.
\<close>

fun ToString :: "number_text \<Rightarrow> jsval \<Rightarrow> js_error + string" where
  "ToString big JUndefined = Inr ''undefined''"
| "ToString big JNull = Inr ''null''"
| "ToString big (JBool b) = Inr (if b then ''true'' else ''false'')"
| "ToString big (JNum n) = Inr (Number_toString big n)"
| "ToString big (JStr s) = Inr s"
| "ToString big (JArr vs) =
     (case js_all (map (\<lambda>v. if v = JUndefined \<or> v = JNull then Inr [] else ToString big v) vs) of
        Inl e \<Rightarrow> Inl e
      | Inr ts \<Rightarrow> Inr (join_with '','' ts))"
| "ToString big (JObj kvs) =
     (if map_of kvs ''toString'' = None then Inr ''[object Object]'' else Inl TypeError)"

text \<open>\<open>ToBoolean\<close>, as a condition applies it.\<close>

fun truthy :: "jsval \<Rightarrow> bool" where
  "truthy JUndefined = False"
| "truthy JNull = False"
| "truthy (JBool b) = b"
| "truthy (JNum n) = (n \<noteq> 0)"
| "truthy (JStr s) = (s \<noteq> [])"
| "truthy (JArr vs) = True"
| "truthy (JObj kvs) = True"

text \<open>
  \<open>a === b\<close> where \<open>b\<close> is a string or number literal: equal type and equal value. An
  array or an object is identical only to itself, never to a literal.
\<close>

fun strict_eq :: "jsval \<Rightarrow> jsval \<Rightarrow> bool" where
  "strict_eq (JArr vs) b = False"
| "strict_eq (JObj kvs) b = False"
| "strict_eq a b = (a = b)"

text \<open>
  \<open>v.k\<close> for the member names the script reads (\<open>pins\<close>, \<open>length\<close>, \<open>pin\<close>, \<open>state\<close>,
  \<open>type\<close>, \<open>alias\<close>, \<open>name\<close>, \<open>side\<close>, \<open>x\<close>, \<open>y\<close>): reading a member of \<open>undefined\<close> or
  \<open>null\<close> throws a \<open>TypeError\<close>; an object yields its own member or \<open>undefined\<close>; a
  string and an array have a \<open>length\<close>; every other read yields \<open>undefined\<close>.
\<close>

fun get_prop :: "jsval \<Rightarrow> string \<Rightarrow> js_error + jsval" where
  "get_prop JUndefined k = Inl TypeError"
| "get_prop JNull k = Inl TypeError"
| "get_prop (JObj kvs) k = Inr (case map_of kvs k of None \<Rightarrow> JUndefined | Some v \<Rightarrow> v)"
| "get_prop (JStr s) k = Inr (if k = ''length'' then JNum (int (length s)) else JUndefined)"
| "get_prop (JArr vs) k = Inr (if k = ''length'' then JNum (int (length vs)) else JUndefined)"
| "get_prop (JBool b) k = Inr JUndefined"
| "get_prop (JNum n) k = Inr JUndefined"

text \<open>
  \<open>v > 0\<close>: the operand is converted to a number. \<open>undefined\<close> and an object convert to
  \<open>NaN\<close>, \<open>null\<close> to 0, a boolean to 0 or 1. The conversion of a string or an array to a
  number (the grammar of numeric strings) is not modelled: \<open>None\<close>.
\<close>

fun js_gt_zero :: "jsval \<Rightarrow> bool option" where
  "js_gt_zero (JNum n) = Some (0 < n)"
| "js_gt_zero JUndefined = Some False"
| "js_gt_zero JNull = Some False"
| "js_gt_zero (JBool b) = Some b"
| "js_gt_zero (JObj kvs) = Some False"
| "js_gt_zero (JStr s) = None"
| "js_gt_zero (JArr vs) = None"

subsection \<open>Reading the embedded JSON text\<close>

text \<open>
  The board configuration reaches the script as the text of an object literal. The reader
  below accepts the JSON texts built from objects, arrays, strings without escapes,
  integers without leading zeros, \<open>true\<close>, \<open>false\<close> and \<open>null\<close>, and returns \<open>None\<close> for
  every other text. It works in two passes, both by recursion over their input: a
  lexer driven by a mode, and a parser driven by a stack of the open arrays and objects.
\<close>

datatype token =
    TLBrace | TRBrace | TLBracket | TRBracket | TColon | TComma
  | TString string | TNumber int | TTrue | TFalse | TNull

datatype lex_mode = Idle | InString string | InNumber bool string | InWord string

definition is_space :: "char \<Rightarrow> bool" where
  "is_space c = (c = CHR '' '' \<or> c = CHR ''\<newline>'' \<or> c = CHR 0x09 \<or> c = CHR 0x0D)"

definition is_digit :: "char \<Rightarrow> bool" where
  "is_digit c = (c \<in> set ''0123456789'')"

definition is_lower :: "char \<Rightarrow> bool" where
  "is_lower c = (c \<in> set ''abcdefghijklmnopqrstuvwxyz'')"

definition digit_value :: "char \<Rightarrow> nat" where
  "digit_value c = of_char c - 48"

definition punct :: "char \<Rightarrow> token option" where
  "punct c =
     (if c = CHR ''{'' then Some TLBrace else if c = CHR ''}'' then Some TRBrace
      else if c = CHR ''['' then Some TLBracket else if c = CHR '']'' then Some TRBracket
      else if c = CHR '':'' then Some TColon else if c = CHR '','' then Some TComma
      else None)"

definition number_token :: "bool \<Rightarrow> string \<Rightarrow> token option" where
  "number_token neg ds =
     (if ds = [] \<or> (hd ds = CHR ''0'' \<and> tl ds \<noteq> []) then None
      else let n = int (foldl (\<lambda>a c. 10 * a + digit_value c) 0 ds)
           in Some (TNumber (if neg then - n else n)))"

definition word_token :: "string \<Rightarrow> token option" where
  "word_token w =
     (if w = ''true'' then Some TTrue else if w = ''false'' then Some TFalse
      else if w = ''null'' then Some TNull else None)"

definition cons_token :: "token \<Rightarrow> token list option \<Rightarrow> token list option" where
  "cons_token t r = (case r of None \<Rightarrow> None | Some ts \<Rightarrow> Some (t # ts))"

fun lex :: "lex_mode \<Rightarrow> string \<Rightarrow> token list option" where
  "lex Idle [] = Some []"
| "lex (InString acc) [] = None"
| "lex (InNumber neg ds) [] =
     (case number_token neg (rev ds) of None \<Rightarrow> None | Some t \<Rightarrow> Some [t])"
| "lex (InWord w) [] =
     (case word_token (rev w) of None \<Rightarrow> None | Some t \<Rightarrow> Some [t])"
| "lex Idle (c # cs) =
     (if is_space c then lex Idle cs
      else if c = CHR 0x22 then lex (InString []) cs
      else if c = CHR ''-'' then lex (InNumber True []) cs
      else if is_digit c then lex (InNumber False [c]) cs
      else if is_lower c then lex (InWord [c]) cs
      else case punct c of None \<Rightarrow> None | Some p \<Rightarrow> cons_token p (lex Idle cs))"
| "lex (InString acc) (c # cs) =
     (if c = CHR 0x22 then cons_token (TString (rev acc)) (lex Idle cs)
      else if c = CHR 0x5C \<or> of_char c < (32 :: nat) then None
      else lex (InString (c # acc)) cs)"
| "lex (InNumber neg ds) (c # cs) =
     (if is_digit c then lex (InNumber neg (c # ds)) cs
      else case number_token neg (rev ds) of
             None \<Rightarrow> None
           | Some t \<Rightarrow>
               (if is_space c then cons_token t (lex Idle cs)
                else case punct c of
                       None \<Rightarrow> None
                     | Some p \<Rightarrow> cons_token t (cons_token p (lex Idle cs))))"
| "lex (InWord w) (c # cs) =
     (if is_lower c then lex (InWord (c # w)) cs
      else case word_token (rev w) of
             None \<Rightarrow> None
           | Some t \<Rightarrow>
               (if is_space c then cons_token t (lex Idle cs)
                else case punct c of
                       None \<Rightarrow> None
                     | Some p \<Rightarrow> cons_token t (cons_token p (lex Idle cs))))"

text \<open>
  The parser's stack holds the arrays and objects that are still open, innermost first:
  the elements read so far, or the members read so far and the key whose value is being
  read. Its phase says what may come next. A key that repeats replaces the earlier
  member, as in a JavaScript object.
\<close>

datatype frame = FArr "jsval list" | FObj "(string \<times> jsval) list" string

datatype phase =
    PValue
  | PValueOrClose
  | PKey "(string \<times> jsval) list"
  | PKeyOrClose
  | PColon "(string \<times> jsval) list" string
  | PAfter jsval

fun obj_put :: "(string \<times> jsval) list \<Rightarrow> string \<Rightarrow> jsval \<Rightarrow> (string \<times> jsval) list" where
  "obj_put [] k v = [(k, v)]"
| "obj_put ((k', v') # kvs) k v =
     (if k' = k then (k, v) # kvs else (k', v') # obj_put kvs k v)"

definition scalar :: "token \<Rightarrow> jsval option" where
  "scalar t =
     (case t of
        TString s \<Rightarrow> Some (JStr s)
      | TNumber n \<Rightarrow> Some (JNum n)
      | TTrue \<Rightarrow> Some (JBool True)
      | TFalse \<Rightarrow> Some (JBool False)
      | TNull \<Rightarrow> Some JNull
      | _ \<Rightarrow> None)"

fun parse :: "frame list \<Rightarrow> phase \<Rightarrow> token list \<Rightarrow> jsval option" where
  "parse st (PAfter v) [] = (if st = [] then Some v else None)"
| "parse st ph [] = None"
| "parse st PValue (t # ts) =
     (if t = TLBracket then parse (FArr [] # st) PValueOrClose ts
      else if t = TLBrace then parse st PKeyOrClose ts
      else case scalar t of None \<Rightarrow> None | Some v \<Rightarrow> parse st (PAfter v) ts)"
| "parse st PValueOrClose (t # ts) =
     (if t = TRBracket then
        (case st of FArr [] # st' \<Rightarrow> parse st' (PAfter (JArr [])) ts | _ \<Rightarrow> None)
      else if t = TLBracket then parse (FArr [] # st) PValueOrClose ts
      else if t = TLBrace then parse st PKeyOrClose ts
      else case scalar t of None \<Rightarrow> None | Some v \<Rightarrow> parse st (PAfter v) ts)"
| "parse st PKeyOrClose (t # ts) =
     (case t of
        TRBrace \<Rightarrow> parse st (PAfter (JObj [])) ts
      | TString k \<Rightarrow> parse st (PColon [] k) ts
      | _ \<Rightarrow> None)"
| "parse st (PKey ms) (t # ts) =
     (case t of TString k \<Rightarrow> parse st (PColon ms k) ts | _ \<Rightarrow> None)"
| "parse st (PColon ms k) (t # ts) =
     (if t = TColon then parse (FObj ms k # st) PValue ts else None)"
| "parse st (PAfter v) (t # ts) =
     (case st of
        [] \<Rightarrow> None
      | FArr vs # st' \<Rightarrow>
          (if t = TComma then parse (FArr (vs @ [v]) # st') PValue ts
           else if t = TRBracket then parse st' (PAfter (JArr (vs @ [v]))) ts
           else None)
      | FObj ms k # st' \<Rightarrow>
          (if t = TComma then parse st' (PKey (obj_put ms k v)) ts
           else if t = TRBrace then parse st' (PAfter (JObj (obj_put ms k v))) ts
           else None))"

definition parse_json :: "string \<Rightarrow> jsval option" where
  "parse_json s = (case lex Idle s of None \<Rightarrow> None | Some ts \<Rightarrow> parse [] PValue ts)"

subsection \<open>The page generator \<open>generateWebInterface\<close>\<close>

text \<open>
  Arduino \<open>String\<close>s are byte strings; the raw string literals of the header are
  reproduced byte for byte, one line of the source per line, the bytes outside printable
  ASCII (UTF-8 sequences of the icons) by their codes.
\<close>

definition BOARD_CONFIG_JSON :: string where
  \<open>BOARD_CONFIG_JSON =
     ''{\<newline>'' @
     ''  "name": "ESP32-WROOM-32",\<newline>'' @
     ''  "pins": [\<newline>'' @
     ''    {"pin": 36, "name": "VP/A0", "x": 15, "y": 60, "side": "left"},\<newline>'' @
     ''    {"pin": 39, "name": "VN/A3", "x": 15, "y": 75, "side": "left"},\<newline>'' @
     ''    {"pin": 34, "name": "A6", "x": 15, "y": 90, "side": "left"},\<newline>'' @
     ''    {"pin": 35, "name": "A7", "x": 15, "y": 105, "side": "left"},\<newline>'' @
     ''    {"pin": 32, "name": "A4/T9", "x": 15, "y": 120, "side": "left"},\<newline>'' @
     ''    {"pin": 33, "name": "A5/T8", "x": 15, "y": 135, "side": "left"},\<newline>'' @
     ''    {"pin": 25, "name": "A18/DAC1", "x": 15, "y": 150, "side": "left"},\<newline>'' @
     ''    {"pin": 26, "name": "A19/DAC2", "x": 15, "y": 165, "side": "left"},\<newline>'' @
     ''    {"pin": 27, "name": "A17/T7", "x": 15, "y": 180, "side": "left"},\<newline>'' @
     ''    {"pin": 14, "name": "A16/T6", "x": 15, "y": 195, "side": "left"},\<newline>'' @
     ''    {"pin": 12, "name": "A15/T5", "x": 15, "y": 210, "side": "left"},\<newline>'' @
     ''    {"pin": 13, "name": "A14/T4", "x": 15, "y": 225, "side": "left"},\<newline>'' @
     ''    {"pin": 2, "name": "A12/T2/LED", "x": 275, "y": 105, "side": "right"},\<newline>'' @
     ''    {"pin": 15, "name": "A13/T3", "x": 275, "y": 90, "side": "right"},\<newline>'' @
     ''    {"pin": 0, "name": "BOOT", "x": 275, "y": 120, "side": "right"},\<newline>'' @
     ''    {"pin": 4, "name": "A10/T0", "x": 275, "y": 135, "side": "right"},\<newline>'' @
     ''    {"pin": 16, "name": "RX2", "x": 275, "y": 150, "side": "right"},\<newline>'' @
     ''    {"pin": 17, "name": "TX2", "x": 275, "y": 165, "side": "right"},\<newline>'' @
     ''    {"pin": 5, "name": "SS", "x": 275, "y": 180, "side": "right"},\<newline>'' @
     ''    {"pin": 18, "name": "SCK", "x": 275, "y": 195, "side": "right"},\<newline>'' @
     ''    {"pin": 19, "name": "MISO", "x": 275, "y": 210, "side": "right"},\<newline>'' @
     ''    {"pin": 21, "name": "SDA", "x": 275, "y": 225, "side": "right"},\<newline>'' @
     ''    {"pin": 3, "name": "RX0", "x": 275, "y": 240, "side": "right"},\<newline>'' @
     ''    {"pin": 1, "name": "TX0", "x": 275, "y": 255, "side": "right"},\<newline>'' @
     ''    {"pin": 22, "name": "SCL", "x": 275, "y": 270, "side": "right"},\<newline>'' @
     ''    {"pin": 23, "name": "MOSI", "x": 275, "y": 285, "side": "right"}\<newline>'' @
     ''  ]\<newline>'' @
     ''}''\<close>

text \<open>
  Modelled from the spec: the enumeration \<open>OperatingMode\<close> is declared outside this
  header; the specification gives the operating mode the two values ONLINE and OFFLINE.
\<close>

datatype OperatingMode = MODE_ONLINE | MODE_OFFLINE

text \<open>
  A C \<open>float\<close>: a finite value, an infinity (with its sign) or a NaN. The Arduino
  conversion \<open>String(float value, unsigned int decimalPlaces)\<close> is library code outside
  this repository and is a parameter of the generator.
\<close>

datatype c_float = FloatFinite rat | FloatInfinity bool | FloatNaN

type_synonym float_to_String = "c_float \<Rightarrow> nat \<Rightarrow> string"

definition statusIcon_online :: string where
  \<open>statusIcon_online =
     [CHR 0xE2, CHR 0x9C, CHR 0x85]\<close>

definition statusIcon_offline :: string where
  \<open>statusIcon_offline =
     [CHR 0xE2, CHR 0x9A, CHR 0xA0, CHR 0xEF, CHR 0xB8, CHR 0x8F]\<close>

text \<open>The ten raw string literals of \<open>generateWebInterface\<close>, in order.\<close>

definition html_1 :: string where
  \<open>html_1 =
     ''<!DOCTYPE html>\<newline>'' @
     ''<html><head>\<newline>'' @
     ''<title>''\<close>

definition html_2 :: string where
  \<open>html_2 =
     '' - ESP32</title>\<newline>'' @
     ''<meta charset='UTF-8'>\<newline>'' @
     ''<meta name='viewport' content='width=device-width, initial-scale=1.0'>\<newline>'' @
     ''<style>\<newline>'' @
     ''body { font-family: 'Segoe UI', Tahoma, Geneva, Verdana, sans-serif; margin: 0; padding: 10px; background: linear-gradient(135deg, #667eea 0%, #764ba2 100%); min-height: 100vh; }\<newline>'' @
     ''.container { max-width: 1400px; margin: 0 auto; background: white; border-radius: 15px; box-shadow: 0 10px 30px rgba(0,0,0,0.2); overflow: hidden; }\<newline>'' @
     ''.header { background: linear-gradient(135deg, #4a5568 0%, #2d3748 100%); color: white; padding: 20px; text-align: center; }\<newline>'' @
     ''.header h1 { margin: 0; font-size: 2em; font-weight: 300; }\<newline>'' @
     ''.header h2 { margin: 5px 0 0 0; font-size: 1em; opacity: 0.8; font-weight: normal; }\<newline>'' @
     ''.content { padding: 20px; display: grid; grid-template-columns: 1fr 2fr; gap: 20px; }\<newline>'' @
     ''.board-section { background: #f8f9fa; padding: 20px; border-radius: 10px; }\<newline>'' @
     ''.board-container { position: relative; width: 290px; height: 500px; margin: 0 auto; background: #2d3748; border-radius: 10px; }\<newline>'' @
     ''.pin { position: absolute; width: 12px; height: 12px; border-radius: 50%; border: 2px solid white; cursor: pointer; transition: all 0.2s; }\<newline>'' @
     ''.pin:hover { transform: scale(1.3); z-index: 10; }\<newline>'' @
     ''.pin-label { position: absolute; font-size: 0.7em; color: white; pointer-events: none; white-space: nowrap; }\<newline>'' @
     ''.pin-left { background: #3b82f6; }\<newline>'' @
     ''.pin-right { background: #10b981; }\<newline>'' @
     ''.pin-active { background: #fbbf24 !important; box-shadow: 0 0 10px #fbbf24; }\<newline>'' @
     ''.logs-section { }\<newline>'' @
     ''.sensor-grid { display: grid; grid-template-columns: repeat(auto-fit, minmax(150px, 1fr)); gap: 15px; margin-bottom: 20px; }\<newline>'' @
     ''.sensor-card { background: #f8f9fa; padding: 15px; border-radius: 8px; border: 1px solid #e9ecef; }\<newline>'' @
     ''.sensor-value { font-size: 1.8em; font-weight: bold; color: #2d3748; }\<newline>'' @
     ''.sensor-label { color: #718096; font-size: 0.9em; margin-bottom: 5px; }\<newline>'' @
     ''.status { padding: 12px; margin: 15px 0; border-radius: 8px; display: flex; align-items: center; }\<newline>'' @
     ''.status.good { background-color: #d4edda; color: #155724; border-left: 4px solid #28a745; }\<newline>'' @
     ''.status.warning { background-color: #fff3cd; color: #856404; border-left: 4px solid #ffc107; }\<newline>'' @
     ''.log-monitor { background: #1a202c; color: #48bb78; padding: 15px; border-radius: 5px; font-family: monospace; height: 350px; overflow-y: auto; font-size: 0.85em; white-space: pre-wrap; }\<newline>'' @
     ''.btn { padding: 10px 20px; border: none; border-radius: 6px; cursor: pointer; font-size: 0.9em; transition: all 0.2s; margin: 5px; }\<newline>'' @
     ''.btn-primary { background: #4a5568; color: white; }\<newline>'' @
     ''.btn-primary:hover { background: #2d3748; }\<newline>'' @
     ''.btn-success { background: #10b981; color: white; }\<newline>'' @
     ''.btn-danger { background: #ef4444; color: white; }\<newline>'' @
     ''.btn-secondary { background: #e2e8f0; color: #4a5568; }\<newline>'' @
     ''.pin-controls { margin-top: 15px; }\<newline>'' @
     ''.pin-control { background: white; padding: 10px; margin: 8px 0; border-radius: 6px; border: 1px solid #e2e8f0; }\<newline>'' @
     ''.pin-control-header { font-weight: 600; margin-bottom: 8px; display: flex; justify-content: space-between; align-items: center; }\<newline>'' @
     ''@media (max-width: 1024px) { .content { grid-template-columns: 1fr; } }\<newline>'' @
     ''</style>\<newline>'' @
     ''</head><body>\<newline>'' @
     ''<div class='container'>\<newline>'' @
     ''<div class='header'>\<newline>'' @
     ''<h1>'' @ [CHR 0xF0, CHR 0x9F, CHR 0x94, CHR 0xA7] @ '' ''\<close>

definition html_3 :: string where
  \<open>html_3 =
     ''</h1>\<newline>'' @
     ''<h2>ESP32 Interactive Board Monitor</h2>\<newline>'' @
     ''</div>\<newline>'' @
     ''<div class='content'>\<newline>'' @
     ''<div class='board-section'>\<newline>'' @
     ''<h3 style='margin-top: 0;'>'' @ [CHR 0xF0, CHR 0x9F, CHR 0x96, CHR 0xA5, CHR 0xEF, CHR 0xB8, CHR 0x8F] @ '' Board Visualization</h3>\<newline>'' @
     ''<div class='board-container' id='boardContainer'>\<newline>'' @
     ''<!-- Pins will be dynamically added here -->\<newline>'' @
     ''</div>\<newline>'' @
     ''<div class='pin-controls' id='pinControls'></div>\<newline>'' @
     ''</div>\<newline>'' @
     ''<div class='logs-section'>\<newline>'' @
     ''<div class='status ''\<close>

definition html_4 :: string where
  \<open>html_4 =
     [CHR 0x27] @ ''>\<newline>'' @
     ''<span style='font-size: 1.3em; margin-right: 10px;'>''\<close>

definition html_5 :: string where
  \<open>html_5 =
     ''</span>\<newline>'' @
     ''<span><strong>Status:</strong> ''\<close>

definition html_6 :: string where
  \<open>html_6 =
     ''</span>\<newline>'' @
     ''</div>\<newline>'' @
     ''<div class='sensor-grid'>\<newline>'' @
     ''<div class='sensor-card'>\<newline>'' @
     ''<div class='sensor-label'>'' @ [CHR 0xF0, CHR 0x9F, CHR 0x8C, CHR 0xA1, CHR 0xEF, CHR 0xB8, CHR 0x8F] @ '' Temperature</div>\<newline>'' @
     ''<div class='sensor-value'>''\<close>

definition html_7 :: string where
  \<open>html_7 =
     [CHR 0xC2, CHR 0xB0] @ ''C</div>\<newline>'' @
     ''</div>\<newline>'' @
     ''<div class='sensor-card'>\<newline>'' @
     ''<div class='sensor-label'>'' @ [CHR 0xF0, CHR 0x9F, CHR 0x94, CHR 0x8C] @ '' Relay</div>\<newline>'' @
     ''<div class='sensor-value'>''\<close>

definition html_8 :: string where
  \<open>html_8 =
     ''</div>\<newline>'' @
     ''</div>\<newline>'' @
     ''<div class='sensor-card'>\<newline>'' @
     ''<div class='sensor-label'>'' @ [CHR 0xE2, CHR 0x8F, CHR 0xB1, CHR 0xEF, CHR 0xB8, CHR 0x8F] @ '' Uptime</div>\<newline>'' @
     ''<div class='sensor-value' style='font-size: 1.2em;'>''\<close>

definition html_9 :: string where
  \<open>html_9 =
     ''s</div>\<newline>'' @
     ''</div>\<newline>'' @
     ''</div>\<newline>'' @
     ''<h3>'' @ [CHR 0xF0, CHR 0x9F, CHR 0x93, CHR 0x9F] @ '' Live Logs</h3>\<newline>'' @
     ''<div id='serialMonitor' class='log-monitor'>Connecting...</div>\<newline>'' @
     ''<div>\<newline>'' @
     ''<button class='btn btn-secondary' onclick='clearSerial()'>'' @ [CHR 0xF0, CHR 0x9F, CHR 0x97, CHR 0x91, CHR 0xEF, CHR 0xB8, CHR 0x8F] @ '' Clear</button>\<newline>'' @
     ''<button class='btn btn-secondary' onclick='toggleAutoScroll()' id='autoScrollBtn'>'' @ [CHR 0xE2, CHR 0xAC, CHR 0x87, CHR 0xEF, CHR 0xB8, CHR 0x8F] @ '' Auto-scroll: ON</button>\<newline>'' @
     ''</div>\<newline>'' @
     ''</div>\<newline>'' @
     ''</div>\<newline>'' @
     ''</div>\<newline>'' @
     ''<script>\<newline>'' @
     ''const BOARD_CONFIG = ''\<close>

definition html_10 :: string where
  \<open>html_10 =
     '';\<newline>'' @
     ''let autoScroll = true;\<newline>'' @
     ''let activePins = new Map();\<newline>'' @
     ''\<newline>'' @
     ''// Initialize board\<newline>'' @
     ''function initBoard() {\<newline>'' @
     ''  const container = document.getElementById('boardContainer');\<newline>'' @
     ''  BOARD_CONFIG.pins.forEach(pinInfo => {\<newline>'' @
     ''    const pin = document.createElement('div');\<newline>'' @
     ''    pin.className = 'pin pin-' + pinInfo.side;\<newline>'' @
     ''    pin.style.left = pinInfo.x + 'px';\<newline>'' @
     ''    pin.style.top = pinInfo.y + 'px';\<newline>'' @
     ''    pin.title = `Pin ${pinInfo.pin} - ${pinInfo.name}`;\<newline>'' @
     ''    pin.id = 'pin-' + pinInfo.pin;\<newline>'' @
     ''    \<newline>'' @
     ''    const label = document.createElement('div');\<newline>'' @
     ''    label.className = 'pin-label';\<newline>'' @
     ''    label.textContent = pinInfo.name;\<newline>'' @
     ''    label.style.left = (pinInfo.side === 'left' ? pinInfo.x + 15 : pinInfo.x - 40) + 'px';\<newline>'' @
     ''    label.style.top = (pinInfo.y - 2) + 'px';\<newline>'' @
     ''    \<newline>'' @
     ''    container.appendChild(pin);\<newline>'' @
     ''    container.appendChild(label);\<newline>'' @
     ''  });\<newline>'' @
     ''  \<newline>'' @
     ''  // Fetch pin states from device\<newline>'' @
     ''  updatePinStates();\<newline>'' @
     ''}\<newline>'' @
     ''\<newline>'' @
     ''async function updatePinStates() {\<newline>'' @
     ''  try {\<newline>'' @
     ''    const response = await fetch('/api/pins');\<newline>'' @
     ''    const data = await response.json();\<newline>'' @
     ''    \<newline>'' @
     ''    const controlsContainer = document.getElementById('pinControls');\<newline>'' @
     ''    controlsContainer.innerHTML = '<h4 style="margin-top: 15px;">Pin Controls</h4>'' @ [CHR 0x27] @ '';\<newline>'' @
     ''    \<newline>'' @
     ''    if (data.pins && data.pins.length > 0) {\<newline>'' @
     ''      data.pins.forEach(pin => {\<newline>'' @
     ''        // Update visual indicator\<newline>'' @
     ''        const pinEl = document.getElementById('pin-' + pin.pin);\<newline>'' @
     ''        if (pinEl) {\<newline>'' @
     ''          if (pin.state === 'HIGH' || pin.state === 1) {\<newline>'' @
     ''            pinEl.classList.add('pin-active');\<newline>'' @
     ''          } else {\<newline>'' @
     ''            pinEl.classList.remove('pin-active');\<newline>'' @
     ''          }\<newline>'' @
     ''        }\<newline>'' @
     ''        \<newline>'' @
     ''        // Add control if it's a write pin\<newline>'' @
     ''        if (pin.type === 'gpio_write') {\<newline>'' @
     ''          const control = document.createElement('div');\<newline>'' @
     ''          control.className = 'pin-control';\<newline>'' @
     ''          control.innerHTML = `\<newline>'' @
     ''            <div class='pin-control-header'>\<newline>'' @
     ''              <span>Pin ${pin.pin} ${pin.alias ? '(' + pin.alias + ')' : '' @ [CHR 0x27, CHR 0x27] @ ''}</span>\<newline>'' @
     ''              <span style='font-size: 0.8em; color: #718096;'>${pin.type}</span>\<newline>'' @
     ''            </div>\<newline>'' @
     ''            <button class='btn ${pin.state === 'HIGH' ? 'btn-success' : 'btn-secondary'}' \<newline>'' @
     ''                    onclick='setPinState(${pin.pin}, "HIGH")'>HIGH</button>\<newline>'' @
     ''            <button class='btn ${pin.state === 'LOW' ? 'btn-danger' : 'btn-secondary'}' \<newline>'' @
     ''                    onclick='setPinState(${pin.pin}, "LOW")'>LOW</button>\<newline>'' @
     ''          `;\<newline>'' @
     ''          controlsContainer.appendChild(control);\<newline>'' @
     ''        }\<newline>'' @
     ''      });\<newline>'' @
     ''    } else {\<newline>'' @
     ''      controlsContainer.innerHTML += '<p style="color: #718096;">No controllable pins in current logic</p>'' @ [CHR 0x27] @ '';\<newline>'' @
     ''    }\<newline>'' @
     ''  } catch (e) {\<newline>'' @
     ''    console.error('Failed to fetch pin states', e);\<newline>'' @
     ''  }\<newline>'' @
     ''}\<newline>'' @
     ''\<newline>'' @
     ''async function setPinState(pin, value) {\<newline>'' @
     ''  try {\<newline>'' @
     ''    const response = await fetch('/api/pin-control', {\<newline>'' @
     ''      method: 'POST',\<newline>'' @
     ''      headers: { 'Content-Type': 'application/json' },\<newline>'' @
     ''      body: JSON.stringify({ pin: pin, value: value })\<newline>'' @
     ''    });\<newline>'' @
     ''    \<newline>'' @
     ''    if (response.ok) {\<newline>'' @
     ''      updatePinStates();\<newline>'' @
     ''    }\<newline>'' @
     ''  } catch (e) {\<newline>'' @
     ''    console.error('Failed to set pin', e);\<newline>'' @
     ''  }\<newline>'' @
     ''}\<newline>'' @
     ''\<newline>'' @
     ''function toggleAutoScroll() { \<newline>'' @
     ''  autoScroll = !autoScroll; \<newline>'' @
     ''  document.getElementById('autoScrollBtn').innerText = '' @ [CHR 0x27, CHR 0xE2, CHR 0xAC, CHR 0x87, CHR 0xEF, CHR 0xB8, CHR 0x8F] @ '' Auto-scroll: ' + (autoScroll ? 'ON' : 'OFF'); \<newline>'' @
     ''}\<newline>'' @
     ''\<newline>'' @
     ''function clearSerial() { \<newline>'' @
     ''  document.getElementById('serialMonitor').innerHTML = '' @ [CHR 0x27, CHR 0x27] @ ''; \<newline>'' @
     ''}\<newline>'' @
     ''\<newline>'' @
     ''async function updateSerial() {\<newline>'' @
     ''  try {\<newline>'' @
     ''    const response = await fetch('/api/serial');\<newline>'' @
     ''    const logs = await response.json();\<newline>'' @
     ''    const monitor = document.getElementById('serialMonitor');\<newline>'' @
     ''    monitor.innerHTML = logs.join('<br>'' @ [CHR 0x27] @ '');\<newline>'' @
     ''    if (autoScroll) monitor.scrollTop = monitor.scrollHeight;\<newline>'' @
     ''  } catch (e) { console.error('Serial update failed', e); }\<newline>'' @
     ''}\<newline>'' @
     ''\<newline>'' @
     ''initBoard();\<newline>'' @
     ''setInterval(updateSerial, 2000);\<newline>'' @
     ''setInterval(updatePinStates, 3000);\<newline>'' @
     ''</script>\<newline>'' @
     ''</body></html>''\<close>

text \<open>\<open>String(unsigned long)\<close> prints the decimal digits.\<close>

definition generateWebInterface ::
  "float_to_String \<Rightarrow> string \<Rightarrow> string \<Rightarrow> string \<Rightarrow> OperatingMode \<Rightarrow> string \<Rightarrow> string \<Rightarrow>
     c_float \<Rightarrow> bool \<Rightarrow> nat \<Rightarrow> string" where
  "generateWebInterface String_float sensorName sensorId sensorType mode masterUrl
       firmwareVersion temperature relayState uptime =
     (let statusClass = (if mode = MODE_ONLINE then ''good'' else ''warning'');
          statusIcon = (if mode = MODE_ONLINE then statusIcon_online else statusIcon_offline);
          statusText = (if mode = MODE_ONLINE then ''Online (Connected to Master)''
                        else ''Offline (Standalone)'');
          html = html_1 @ sensorName @ html_2 @ sensorName @ html_3 @ statusClass @ html_4 @
                 statusIcon @ html_5 @ statusText @ html_6 @ String_float temperature 1 @
                 html_7 @ (if relayState then ''ON'' else ''OFF'') @ html_8 @
                 nat_to_string uptime @ html_9 @ BOARD_CONFIG_JSON @ html_10
      in html)"


text \<open>
  \<^verbatim>\<open>const BOARD_CONFIG = ...;\<close> in the page's script: the value of the embedded text, and
  the list \<open>BOARD_CONFIG.pins\<close> (empty where the text has no such list).
\<close>

definition BOARD_CONFIG :: "jsval option" where
  "BOARD_CONFIG = parse_json BOARD_CONFIG_JSON"

definition board_pins :: "jsval list" where
  "board_pins =
     (case BOARD_CONFIG of
        None \<Rightarrow> []
      | Some cfg \<Rightarrow> (case get_prop cfg ''pins'' of Inr (JArr ps) \<Rightarrow> ps | _ \<Rightarrow> []))"

subsection \<open>The page's script: markers and pin controls\<close>

text \<open>
  The part of the document the script changes. A marker is an element of the board
  container with its \<open>id\<close> and its class list. The children of the \<open>pinControls\<close>
  container are markup assigned through \<open>innerHTML\<close> or elements appended with
  \<open>appendChild\<close> (class name and inner HTML). Markup is kept as text: what a value
  interpolated into it may inject is not interpreted. \<open>getElementById\<close> finds markers
  only: the ids the script looks up begin with \<open>pin-\<close>, as no other id of the page
  does. \<open>console\<close> collects the messages of \<open>console.error\<close>.
\<close>

datatype node = Markup string | Element string string

record dom =
  markers :: "(string \<times> string list) list"
  pinControls :: "node list"
  console :: "string list"

definition pin_controls_heading :: string where
  \<open>pin_controls_heading =
     ''<h4 style="margin-top: 15px;">Pin Controls</h4>''\<close>

definition no_pins_placeholder :: string where
  \<open>no_pins_placeholder =
     ''<p style="color: #718096;">No controllable pins in current logic</p>''\<close>

text \<open>
  The document as generated: the board container and the \<open>pinControls\<close> container are
  empty, nothing is on the console.
\<close>

definition initial_dom :: dom where
  "initial_dom = \<lparr>markers = [], pinControls = [], console = []\<rparr>"

text \<open>The tokens of a \<open>className\<close>, separated by white space.\<close>

fun split_spaces :: "string \<Rightarrow> string \<Rightarrow> string list" where
  "split_spaces cur [] = (if cur = [] then [] else [rev cur])"
| "split_spaces cur (c # cs) =
     (if is_space c then (if cur = [] then split_spaces [] cs else rev cur # split_spaces [] cs)
      else split_spaces (c # cur) cs)"

definition class_tokens :: "string \<Rightarrow> string list" where
  "class_tokens s = split_spaces [] s"

definition getElementById :: "dom \<Rightarrow> string \<Rightarrow> string list option" where
  "getElementById d i = map_of (markers d) i"

fun update_first ::
  "string \<Rightarrow> (string list \<Rightarrow> string list) \<Rightarrow> (string \<times> string list) list \<Rightarrow>
     (string \<times> string list) list" where
  "update_first i f [] = []"
| "update_first i f ((j, cs) # ms) =
     (if j = i then (j, f cs) # ms else (j, cs) # update_first i f ms)"

definition classList_add :: "string \<Rightarrow> string \<Rightarrow> dom \<Rightarrow> dom" where
  "classList_add i c d =
     d\<lparr>markers := update_first i (\<lambda>cs. if c \<in> set cs then cs else cs @ [c]) (markers d)\<rparr>"

definition classList_remove :: "string \<Rightarrow> string \<Rightarrow> dom \<Rightarrow> dom" where
  "classList_remove i c d =
     d\<lparr>markers := update_first i (filter (\<lambda>x. x \<noteq> c)) (markers d)\<rparr>"

definition appendChild :: "node \<Rightarrow> dom \<Rightarrow> dom" where
  "appendChild n d = d\<lparr>pinControls := pinControls d @ [n]\<rparr>"

definition console_error :: "string \<Rightarrow> dom \<Rightarrow> dom" where
  "console_error msg d = d\<lparr>console := console d @ [msg]\<rparr>"

text \<open>
  \<open>innerHTML += s\<close> reads the container's markup back and assigns it with \<open>s\<close>
  appended; markup that was assigned is taken to read back unchanged.
\<close>

fun outerHTML :: "node \<Rightarrow> string" where
  "outerHTML (Markup m) = m"
| "outerHTML (Element c h) = ''<div class=\"'' @ c @ ''\">'' @ h @ ''</div>''"

definition innerHTML_append :: "string \<Rightarrow> dom \<Rightarrow> dom" where
  "innerHTML_append s d =
     d\<lparr>pinControls := [Markup (concat (map outerHTML (pinControls d)) @ s)]\<rparr>"

text \<open>
  \<open>initBoard\<close>: one marker for each entry of \<open>BOARD_CONFIG.pins\<close>, with the class name
  \<^verbatim>\<open>'pin pin-' + pinInfo.side\<close> and the id \<^verbatim>\<open>'pin-' + pinInfo.pin\<close>. The callback also
  turns \<open>x\<close>, \<open>y\<close> and \<open>name\<close> into text, for the position, the title and the label of
  the marker; these are not kept, \<open>updatePinStates\<close> never reads them, but a conversion
  that throws ends \<open>initBoard\<close>.
\<close>

definition make_marker :: "number_text \<Rightarrow> jsval \<Rightarrow> js_error + (string \<times> string list)" where
  "make_marker big pinInfo =
     js_bind (get_prop pinInfo ''side'') (\<lambda>side.
     js_bind (ToString big side) (\<lambda>side_s.
     js_bind (get_prop pinInfo ''x'') (\<lambda>x.
     js_bind (ToString big x) (\<lambda>x_s.
     js_bind (get_prop pinInfo ''y'') (\<lambda>y.
     js_bind (ToString big y) (\<lambda>y_s.
     js_bind (get_prop pinInfo ''pin'') (\<lambda>p.
     js_bind (ToString big p) (\<lambda>pin_s.
     js_bind (get_prop pinInfo ''name'') (\<lambda>name.
     js_bind (ToString big name) (\<lambda>name_s.
       Inr (''pin-'' @ pin_s, class_tokens (''pin pin-'' @ side_s))))))))))))"

fun initBoard_markers :: "number_text \<Rightarrow> jsval list \<Rightarrow> dom \<Rightarrow> js_error + dom" where
  "initBoard_markers big [] d = Inr d"
| "initBoard_markers big (pinInfo # rest) d =
     (case make_marker big pinInfo of
        Inl e \<Rightarrow> Inl e
      | Inr m \<Rightarrow> initBoard_markers big rest (d\<lparr>markers := markers d @ [m]\<rparr>))"

text \<open>
  The template literal assigned to \<open>control.innerHTML\<close>, as a function of the five
  interpolated texts.
\<close>

definition control_html :: "string \<Rightarrow> string \<Rightarrow> string \<Rightarrow> string \<Rightarrow> string \<Rightarrow> string" where
  \<open>control_html pin_s alias_s type_s high_class low_class =
       ''\<newline>'' @
       ''            <div class='pin-control-header'>\<newline>'' @
       ''              <span>Pin '' @
       pin_s @
       '' '' @
       alias_s @
       ''</span>\<newline>'' @
       ''              <span style='font-size: 0.8em; color: #718096;'>'' @
       type_s @
       ''</span>\<newline>'' @
       ''            </div>\<newline>'' @
       ''            <button class='btn '' @
       high_class @
       [CHR 0x27] @ '' \<newline>'' @
       ''                    onclick='setPinState('' @
       pin_s @
       '', "HIGH")'>HIGH</button>\<newline>'' @
       ''            <button class='btn '' @
       low_class @
       [CHR 0x27] @ '' \<newline>'' @
       ''                    onclick='setPinState('' @
       pin_s @
       '', "LOW")'>LOW</button>\<newline>'' @
       ''          ''\<close>

text \<open>
  The interpolations of the template, in order: \<^verbatim>\<open>${pin.pin}\<close>, the alias in parentheses
  when there is one, \<^verbatim>\<open>${pin.type}\<close>, and the two button classes.
\<close>

definition alias_text :: "number_text \<Rightarrow> jsval \<Rightarrow> js_error + string" where
  "alias_text big alias =
     (if truthy alias then js_bind (ToString big alias) (\<lambda>a. Inr (''('' @ a @ '')''))
      else Inr [])"

definition control_innerHTML ::
  "number_text \<Rightarrow> jsval \<Rightarrow> jsval \<Rightarrow> jsval \<Rightarrow> jsval \<Rightarrow> js_error + string" where
  "control_innerHTML big pin_no alias type state =
     js_bind (ToString big pin_no) (\<lambda>pin_s.
     js_bind (alias_text big alias) (\<lambda>alias_s.
     js_bind (ToString big type) (\<lambda>type_s.
       Inr (control_html pin_s alias_s type_s
              (if strict_eq state (JStr ''HIGH'') then ''btn-success'' else ''btn-secondary'')
              (if strict_eq state (JStr ''LOW'') then ''btn-danger'' else ''btn-secondary'')))))"

text \<open>
  The body of \<^verbatim>\<open>data.pins.forEach(pin => { ... })\<close>. An exception leaves the changes made
  before it: \<open>Inl\<close> holds the exception and the document reached.
\<close>

definition process_pin :: "number_text \<Rightarrow> dom \<Rightarrow> jsval \<Rightarrow> (js_error \<times> dom) + dom" where
  "process_pin big d pin =
     (case get_prop pin ''pin'' of
        Inl e \<Rightarrow> Inl (e, d)
      | Inr pin_no \<Rightarrow>
     (case ToString big pin_no of
        Inl e \<Rightarrow> Inl (e, d)
      | Inr pin_s \<Rightarrow>
     (case get_prop pin ''state'' of
        Inl e \<Rightarrow> Inl (e, d)
      | Inr state \<Rightarrow>
     (case get_prop pin ''type'' of
        Inl e \<Rightarrow> Inl (e, d)
      | Inr type \<Rightarrow>
     (case get_prop pin ''alias'' of
        Inl e \<Rightarrow> Inl (e, d)
      | Inr alias \<Rightarrow>
          (let pinEl = ''pin-'' @ pin_s;
               d1 = (case getElementById d pinEl of
                       None \<Rightarrow> d
                     | Some cs \<Rightarrow>
                         if strict_eq state (JStr ''HIGH'') \<or> strict_eq state (JNum 1)
                         then classList_add pinEl ''pin-active'' d
                         else classList_remove pinEl ''pin-active'' d)
           in if strict_eq type (JStr ''gpio_write'')
              then (case control_innerHTML big pin_no alias type state of
                      Inl e \<Rightarrow> Inl (e, d1)
                    | Inr h \<Rightarrow> Inr (appendChild (Element ''pin-control'' h) d1))
              else Inr d1))))))"

text \<open>\<open>forEach\<close> stops at the first exception.\<close>

fun forEach_pins :: "number_text \<Rightarrow> dom \<Rightarrow> jsval list \<Rightarrow> (js_error \<times> dom) + dom" where
  "forEach_pins big d [] = Inr d"
| "forEach_pins big d (pin # pins) =
     (case process_pin big d pin of
        Inl a \<Rightarrow> Inl a
      | Inr d' \<Rightarrow> forEach_pins big d' pins)"

text \<open>
  \<open>updatePinStates\<close>. The response is \<open>None\<close> when \<open>fetch\<close> or \<open>response.json()\<close>
  rejects, and the parsed body otherwise. Every exception is caught and reported on the
  console. The result is \<open>None\<close> only where \<open>data.pins.length > 0\<close> needs a conversion
  to a number that is not modelled.
\<close>

definition updatePinStates :: "number_text \<Rightarrow> jsval option \<Rightarrow> dom \<Rightarrow> dom option" where
  "updatePinStates big response d =
     (case response of
        None \<Rightarrow> Some (console_error ''Failed to fetch pin states'' d)
      | Some data \<Rightarrow>
          (let d1 = d\<lparr>pinControls := [Markup pin_controls_heading]\<rparr>
           in case get_prop data ''pins'' of
                Inl e \<Rightarrow> Some (console_error ''Failed to fetch pin states'' d1)
              | Inr pins \<Rightarrow>
                  (case (if truthy pins
                         then (case get_prop pins ''length'' of
                                 Inl e \<Rightarrow> Some False
                               | Inr n \<Rightarrow> js_gt_zero n)
                         else Some False) of
                     None \<Rightarrow> None
                   | Some True \<Rightarrow>
                       (case pins of
                          JArr ps \<Rightarrow>
                            (case forEach_pins big d1 ps of
                               Inl (e, d2) \<Rightarrow>
                                 Some (console_error ''Failed to fetch pin states'' d2)
                             | Inr d2 \<Rightarrow> Some d2)
                        | _ \<Rightarrow> Some (console_error ''Failed to fetch pin states'' d1))
                   | Some False \<Rightarrow> Some (innerHTML_append no_pins_placeholder d1))))"

text \<open>What is on display in the container: the control blocks and the placeholder.\<close>

fun is_control :: "node \<Rightarrow> bool" where
  "is_control (Element c h) = (c = ''pin-control'')"
| "is_control (Markup m) = False"

definition control_blocks :: "dom \<Rightarrow> node list" where
  "control_blocks d = filter is_control (pinControls d)"

definition placeholder_shown :: "dom \<Rightarrow> bool" where
  "placeholder_shown d =
     (Markup (pin_controls_heading @ no_pins_placeholder) \<in> set (pinControls d))"

section \<open>Properties of the sensor firmware\<close>

subsection \<open>The rounding of the floating-point model\<close>

text \<open>
  \<open>floor_log2\<close> is the binary exponent; \<open>round_to_precision p\<close> returns a multiple of
  the unit in the last place with a significand of at most \<open>p\<close> bits, and it is a
  nearest one: the error is at most half a unit in the last place. Ties go to the even
  significand by the definition of \<open>round_half_even\<close>.
\<close>

lemma bitlen_bounds: "0 < n \<Longrightarrow> 2 ^ (bitlen n - 1) \<le> n \<and> n < 2 ^ bitlen n"
proof (induction n rule: bitlen.induct)
  case (1 n)
  show ?case
  proof (cases "n div 2 = 0")
    case True
    with "1.prems" have "n = 1" by (simp add: div_eq_0_iff) 
    then show ?thesis by (simp add: bitlen.simps [of "Suc 0"] bitlen.simps [of 0])
  next
    case False
    then have pos: "0 < n div 2" by simp
    from "1.IH" [OF _ pos] "1.prems"
    have ih: "2 ^ (bitlen (n div 2) - 1) \<le> n div 2" "n div 2 < 2 ^ bitlen (n div 2)"
      by auto
    have b: "bitlen n = Suc (bitlen (n div 2))"
      using "1.prems" by (subst bitlen.simps) simp
    have b1: "0 < bitlen (n div 2)"
      using pos by (subst bitlen.simps) simp
    then obtain k where k: "bitlen (n div 2) = Suc k"
      by (cases "bitlen (n div 2)") auto
    from ih k have "2 ^ k \<le> n div 2" "n div 2 < 2 * 2 ^ k" by simp_all
    then have "2 * 2 ^ k \<le> n" "n < 2 * (2 * 2 ^ k)" by linarith+
    then show ?thesis by (simp add: b k)
  qed
qed

lemma of_nat_pow2_le: "2 ^ a \<le> (n::nat) \<Longrightarrow> (2::rat) ^ a \<le> of_nat n"
proof -
  assume "2 ^ a \<le> n"
  then have "(of_nat (2 ^ a) :: rat) \<le> of_nat n"
    by (simp only: of_nat_le_iff)
  then show ?thesis by simp
qed

lemma of_nat_less_pow2: "(n::nat) < 2 ^ a \<Longrightarrow> (of_nat n :: rat) + 1 \<le> 2 ^ a"
proof -
  assume "n < 2 ^ a"
  then have "Suc n \<le> 2 ^ a" by simp
  then have "(of_nat (Suc n) :: rat) \<le> of_nat (2 ^ a)"
    by (simp only: of_nat_le_iff)
  then show ?thesis by simp
qed

lemma pow2_pos: "0 < pow2 e"
  by (simp add: pow2_def)

lemma pow2_add1: "pow2 (e + 1) = 2 * pow2 e"
proof (cases "0 \<le> e")
  case True
  then show ?thesis by (simp add: pow2_def nat_add_distrib)
next
  case False
  then have "0 < nat (- e)" by simp
  then obtain k where "nat (- e) = Suc k"
    by (cases "nat (- e)") auto
  with False have e: "e = - int (Suc k)" by linarith
  show ?thesis
    by (simp add: pow2_def e nat_add_distrib)
qed

lemma floor_log2_bounds:
  assumes "0 < x"
  shows "pow2 (floor_log2 x) \<le> x \<and> x < pow2 (floor_log2 x + 1)"
proof (cases "1 \<le> x")
  case True
  let ?n = "nat \<lfloor>x\<rfloor>"
  have n: "0 < ?n" using True by simp
  from bitlen_bounds [OF n] have lo: "2 ^ (bitlen ?n - 1) \<le> ?n" and hi: "?n < 2 ^ bitlen ?n"
    by auto
  have "0 < bitlen ?n" using n by (subst bitlen.simps) simp
  then obtain k where k: "bitlen ?n = Suc k"
    by (cases "bitlen ?n") auto
  have fl: "floor_log2 x = int k"
    using True k by (simp add: floor_log2_def)
  have p1: "pow2 (int k) = 2 ^ k"
    by (simp add: pow2_def)
  have p2: "pow2 (int k + 1) = 2 * 2 ^ k"
    by (simp add: pow2_add1 p1)
  have nn: "(of_nat ?n :: rat) = of_int \<lfloor>x\<rfloor>" using True by simp
  have c: "(of_nat ?n :: rat) \<le> x" "x < of_nat ?n + 1"
    unfolding nn by linarith+
  have a: "(2::rat) ^ k \<le> of_nat ?n"
    using of_nat_pow2_le [of k ?n] lo k by simp
  have b: "(of_nat ?n :: rat) + 1 \<le> 2 * 2 ^ k"
    using of_nat_less_pow2 [OF hi] k by simp
  show ?thesis
    unfolding fl p1 p2 using a b c by linarith
next
  case False
  let ?y = "1 / x"
  let ?n = "nat \<lfloor>?y\<rfloor>"
  have y: "1 < ?y" using False assms by simp
  then have n: "0 < ?n" by (simp add: less_floor_iff)
  from bitlen_bounds [OF n] have lo: "2 ^ (bitlen ?n - 1) \<le> ?n" and hi: "?n < 2 ^ bitlen ?n"
    by auto
  have "0 < bitlen ?n" using n by (subst bitlen.simps) simp
  then obtain k where k: "bitlen ?n = Suc k"
    by (cases "bitlen ?n") auto
  have f1: "1 \<le> \<lfloor>?y\<rfloor>" using y by (simp add: le_floor_iff)
  have nn: "(of_nat ?n :: rat) = of_int \<lfloor>?y\<rfloor>"
    by (rule of_nat_nat) (use f1 in linarith)
  have ny: "(of_nat ?n :: rat) \<le> ?y" "?y < of_nat ?n + 1"
    unfolding nn by linarith+
  have a: "(2::rat) ^ k \<le> of_nat ?n"
    using of_nat_pow2_le [of k ?n] lo k by simp
  have b: "(of_nat ?n :: rat) + 1 \<le> 2 * 2 ^ k"
    using of_nat_less_pow2 [OF hi] k by simp
  have lo': "(2::rat) ^ k \<le> 1 / x" and hi': "1 / x < 2 * (2::rat) ^ k"
    using a b ny by linarith+
  have pk: "(0::rat) < 2 ^ k" by simp
  have x_hi: "x \<le> 1 / 2 ^ k"
    using lo' assms pk by (simp add: field_simps)
  have x_lo: "1 / (2 * 2 ^ k) < x"
    using hi' assms pk by (simp add: field_simps)
  have e0: "pow2 (1 - int (bitlen ?n)) = 1 / 2 ^ k"
    by (simp add: k pow2_def)
  have e1: "pow2 (1 - int (bitlen ?n) - 1) = 1 / (2 * 2 ^ k)"
    by (simp add: k pow2_def nat_add_distrib)
  have e2: "pow2 (1 - int (bitlen ?n) + 1) = 2 * (1 / 2 ^ k)"
    by (simp only: pow2_add1 e0)
  have h: "(0::rat) < 1 / 2 ^ k"
    by simp
  show ?thesis
  proof (cases "pow2 (1 - int (bitlen ?n)) \<le> x")
    case True
    then have fl: "floor_log2 x = 1 - int (bitlen ?n)"
      using False by (simp add: floor_log2_def Let_def)
    have "x < 2 * (1 / 2 ^ k)"
      using x_hi h by linarith
    with True show ?thesis
      unfolding fl e2 by (rule conjI)
  next
    case F2: False
    then have fl: "floor_log2 x = 1 - int (bitlen ?n) - 1"
      using False by (simp add: floor_log2_def Let_def)
    have e3: "pow2 (1 - int (bitlen ?n) - 1 + 1) = pow2 (1 - int (bitlen ?n))"
      by simp
    have "pow2 (1 - int (bitlen ?n) - 1) \<le> x"
      unfolding e1 using x_lo by (rule less_imp_le)
    moreover have "x < pow2 (1 - int (bitlen ?n))"
      using F2 by (rule not_le_imp_less)
    ultimately show ?thesis
      unfolding fl e3 by (rule conjI)
  qed
qed

lemma round_half_even_nearest: "\<bar>of_int (round_half_even x) - x\<bar> \<le> 1 / 2"
proof -
  define f where "f = \<lfloor>x\<rfloor>"
  define d where "d = x - of_int f"
  have d: "0 \<le> d" "d < 1"
    unfolding d_def f_def by linarith+
  have x: "x = of_int f + d"
    by (simp add: d_def)
  have r: "round_half_even x =
      (if d < 1 / 2 then f else if 1 / 2 < d then f + 1 else if even f then f else f + 1)"
    by (simp add: round_half_even_def Let_def f_def d_def)
  have "\<bar>of_int (round_half_even x) - (of_int f + d)\<bar> \<le> 1 / 2"
    unfolding r using d by (auto simp add: abs_if)
  then show ?thesis
    using x by simp
qed

lemma round_to_precision_error:
  assumes "x \<noteq> 0"
  shows "\<bar>round_to_precision p x - x\<bar> \<le> pow2 (floor_log2 \<bar>x\<bar> - int p + 1) / 2"
proof -
  let ?u = "pow2 (floor_log2 \<bar>x\<bar> - int p + 1)"
  have u: "0 < ?u" by (rule pow2_pos)
  have "round_to_precision p x - x = (of_int (round_half_even (x / ?u)) - x / ?u) * ?u"
    using assms u by (simp add: round_to_precision_def Let_def field_simps)
  then have "\<bar>round_to_precision p x - x\<bar> = \<bar>of_int (round_half_even (x / ?u)) - x / ?u\<bar> * ?u"
    using u by (simp add: abs_mult)
  also have "\<dots> \<le> (1 / 2) * ?u"
    using round_half_even_nearest [of "x / ?u"] u by (simp add: mult_right_mono)
  finally show ?thesis by simp
qed


lemma pow2_add_nat: "pow2 (e + int n) = 2 ^ n * pow2 e"
proof (induction n)
  case 0
  show ?case by simp
next
  case (Suc n)
  have "e + int (Suc n) = e + int n + 1"
    by simp
  then have "pow2 (e + int (Suc n)) = pow2 (e + int n + 1)"
    by (rule arg_cong)
  then show ?case
    by (simp add: pow2_add1 Suc.IH)
qed

lemma round_to_precision_representable:
  assumes "x \<noteq> 0"
  shows "\<exists>m. round_to_precision p x = of_int m * pow2 (floor_log2 \<bar>x\<bar> - int p + 1)
             \<and> \<bar>m\<bar> \<le> 2 ^ p"
proof -
  let ?e = "floor_log2 \<bar>x\<bar>"
  let ?u = "pow2 (?e - int p + 1)"
  let ?m = "round_half_even (x / ?u)"
  have u: "0 < ?u" by (rule pow2_pos)
  have "\<bar>x\<bar> < pow2 (?e + 1)"
    using floor_log2_bounds [of "\<bar>x\<bar>"] assms by simp
  moreover have "pow2 (?e + 1) = 2 ^ p * ?u"
    using pow2_add_nat [of "?e - int p + 1" p] by (simp add: algebra_simps)
  ultimately have "\<bar>x\<bar> < 2 ^ p * ?u" by simp
  then have "\<bar>x / ?u\<bar> < 2 ^ p"
    using u by (simp add: field_simps abs_mult)
  moreover have "\<bar>of_int ?m - x / ?u\<bar> \<le> 1 / 2"
    by (rule round_half_even_nearest)
  ultimately have "\<bar>(of_int ?m :: rat)\<bar> < 2 ^ p + 1"
    by linarith
  then have "(of_int \<bar>?m\<bar> :: rat) < of_int (2 ^ p + 1)"
    by simp
  then have "\<bar>?m\<bar> < 2 ^ p + 1"
    by (simp only: of_int_less_iff)
  then have "\<bar>?m\<bar> \<le> 2 ^ p" by simp
  moreover have "round_to_precision p x = of_int ?m * ?u"
    using assms by (simp add: round_to_precision_def Let_def)
  ultimately show ?thesis by blast
qed

subsection \<open>Evaluating the floating-point model\<close>

lemma floor_rat_numeral_div [simp]:
  "\<lfloor>numeral a / numeral b :: rat\<rfloor> = numeral a div numeral b"
  using floor_divide_of_int_eq [of "numeral a" "numeral b", where ?'a = rat] by simp

lemma bitlen_0 [simp]: "bitlen 0 = 0"
  by (subst bitlen.simps) simp

lemma bitlen_Suc_0 [simp]: "bitlen (Suc 0) = 1"
  by (subst bitlen.simps) simp

lemma bitlen_numeral [simp]: "bitlen (numeral k) = Suc (bitlen (numeral k div 2))"
  by (subst bitlen.simps) simp

lemmas float_eval =
  to_double_def to_float_def round_to_precision_def floor_log2_def pow2_def Let_def
  round_half_even_def

lemma double_33_10: "to_double (33 / 10) = 3715469692580659 / 1125899906842624"
  by (simp add: float_eval)

lemma double_2048_4095: "to_double (2048 / 4095) = 281543712968705 / 562949953421312"
  by (simp add: float_eval)

lemma double_2048: "to_double 2048 = 2048"
  by (simp add: float_eval)

lemma double_4095: "to_double 4095 = 4095"
  by (simp add: float_eval)

lemma voltage_of_0: "voltage_of 0 = 0"
  by (simp add: voltage_of_def to_double_def to_float_def round_to_precision_def)

lemma voltage_of_2048: "voltage_of 2048 = 13844583 / 4194304"
  by (simp add: voltage_of_def double_2048 double_33_10 double_2048_4095) (simp add: float_eval)

lemma voltage_of_4095: "voltage_of 4095 = 13841203 / 2097152"
  by (simp add: voltage_of_def double_4095 double_33_10) (simp add: float_eval)

text \<open>
  C2. For the raw readings 0, 2048 and 4095 the conversion of the sampling loop agrees
  with \<open>(raw / 4095) * 3.3 * 2\<close> up to the rounding of \<open>float\<close> (here: within \<open>10^-6\<close>),
  and yields \<open>0.0\<close>, \<open>3.30\<close> and \<open>6.60\<close> volts to two decimal places. The values are
  those of IEEE-754 arithmetic: \<open>13844583 / 2^22\<close> is the \<open>float\<close> 3.3008058071136475
  and \<open>13841203 / 2^21\<close> is the \<open>float\<close> 6.599999904632568.
\<close>

theorem voltage_conversion_samples:
  "voltage_of 0 = 0
   \<and> voltage_of 2048 = 13844583 / 2 ^ 22
   \<and> \<bar>voltage_of 2048 - (2048 / 4095) * (33 / 10) * 2\<bar> < 1 / 10 ^ 6
   \<and> \<bar>voltage_of 2048 - 330 / 100\<bar> < 5 / 1000
   \<and> voltage_of 4095 = 13841203 / 2 ^ 21
   \<and> \<bar>voltage_of 4095 - (4095 / 4095) * (33 / 10) * 2\<bar> < 1 / 10 ^ 6
   \<and> \<bar>voltage_of 4095 - 660 / 100\<bar> < 5 / 1000"
  by (simp add: voltage_of_0 voltage_of_2048 voltage_of_4095)

subsection \<open>The loop, iteration by iteration\<close>

lemma ESP_ERR_TIMEOUT_not_OK: "ESP_ERR_TIMEOUT \<noteq> ESP_OK"
  by (simp add: ESP_ERR_TIMEOUT_def ESP_OK_def)

lemma loop_body_ok:
  "loop_body s (ESP_OK, raw) =
     Inr (s\<lparr>clock_ms := clock_ms s + 1000,
            led_history := led_history s @
              [(clock_ms s, LED_GPIO, 1), (clock_ms s + 100, LED_GPIO, 0)],
            doc := doc_set (doc s) ''value'' (JsonFloat (voltage_of raw)),
            log_lines := log_lines s @
              [\<lparr>level = ESP_LOG_INFO, tag = TAG, fmt = ''Telemetry: %s'',
                args = [SerializedJson
                  (doc_set (doc s) ''value'' (JsonFloat (voltage_of raw)))]\<rparr>]\<rparr>)"
  by (simp add: loop_body_def ESP_ERROR_CHECK_def gpio_set_level_def vTaskDelay_ms_def
      ESP_LOGI_def Let_def)

lemma loop_body_fail:
  "rc \<noteq> ESP_OK \<Longrightarrow> loop_body s (rc, raw) =
     Inl (rc, s\<lparr>clock_ms := clock_ms s + 1000,
                 led_history := led_history s @
                   [(clock_ms s, LED_GPIO, 1), (clock_ms s + 100, LED_GPIO, 0)]\<rparr>)"
  by (simp add: loop_body_def ESP_ERROR_CHECK_def gpio_set_level_def vTaskDelay_ms_def Let_def)

lemma app_main_init_ok:
  "app_main_init ESP_OK ESP_OK =
     Inr \<lparr>clock_ms = 0, gpio_outputs = [LED_GPIO], led_history = [],
          log_lines = [\<lparr>level = ESP_LOG_INFO, tag = TAG,
                        fmt = ''Starting Sensor Firmware (ESP-IDF + ArduinoJson)'', args = []\<rparr>],
          doc = [(''sensor'', JsonString ''battery''), (''value'', JsonInt 0)]\<rparr>"
  by (simp add: app_main_init_def ESP_ERROR_CHECK_def ESP_LOGI_def gpio_config_def fw_boot_def)

text \<open>
  C1, as the code has it. The status of the analog read is checked by \<open>ESP_ERROR_CHECK\<close>,
  as the two initialisation calls are. Every iteration first pulses the LED: pin 15 high,
  100 ms, low, 900 ms. If the read then succeeds, the iteration stores the voltage in the
  document, appends exactly one log line and the loop goes on with the next read. If the
  read fails, the program is aborted with the read's error code after the pulse: no log
  line, the document untouched, and the remaining reads never happen.
\<close>

theorem loop_body_read_outcome:
  "(rc = ESP_OK \<longrightarrow>
      loop_body s (rc, raw) =
        Inr (s\<lparr>clock_ms := clock_ms s + 1000,
               led_history := led_history s @ [(clock_ms s, 15, 1), (clock_ms s + 100, 15, 0)],
               doc := doc_set (doc s) ''value'' (JsonFloat (voltage_of raw)),
               log_lines := log_lines s @
                 [\<lparr>level = ESP_LOG_INFO, tag = ''SENSOR_FW'', fmt = ''Telemetry: %s'',
                   args = [SerializedJson
                     (doc_set (doc s) ''value'' (JsonFloat (voltage_of raw)))]\<rparr>]\<rparr>)
      \<and> sampling_loop s ((rc, raw) # rest) =
          sampling_loop (reached (loop_body s (rc, raw))) rest)
   \<and> (rc \<noteq> ESP_OK \<longrightarrow>
      loop_body s (rc, raw) =
        Inl (rc, s\<lparr>clock_ms := clock_ms s + 1000,
                    led_history := led_history s @
                      [(clock_ms s, 15, 1), (clock_ms s + 100, 15, 0)]\<rparr>)
      \<and> sampling_loop s ((rc, raw) # rest) = loop_body s (rc, raw))"
  by (simp add: loop_body_ok loop_body_fail TAG_def LED_GPIO_def)

theorem loop_body_read_outcome_witness:
  "loop_body (reached (app_main_init ESP_OK ESP_OK)) (ESP_OK, 4095) =
     Inr \<lparr>clock_ms = 1000, gpio_outputs = [15], led_history = [(0, 15, 1), (100, 15, 0)],
          log_lines =
            [\<lparr>level = ESP_LOG_INFO, tag = ''SENSOR_FW'',
              fmt = ''Starting Sensor Firmware (ESP-IDF + ArduinoJson)'', args = []\<rparr>,
             \<lparr>level = ESP_LOG_INFO, tag = ''SENSOR_FW'', fmt = ''Telemetry: %s'',
              args = [SerializedJson [(''sensor'', JsonString ''battery''),
                                      (''value'', JsonFloat (13841203 / 2097152))]]\<rparr>],
          doc = [(''sensor'', JsonString ''battery''),
                 (''value'', JsonFloat (13841203 / 2097152))]\<rparr>
   \<and> loop_body (reached (app_main_init ESP_OK ESP_OK)) (ESP_ERR_TIMEOUT, 0) =
     Inl (ESP_ERR_TIMEOUT,
          \<lparr>clock_ms = 1000, gpio_outputs = [15], led_history = [(0, 15, 1), (100, 15, 0)],
           log_lines =
             [\<lparr>level = ESP_LOG_INFO, tag = ''SENSOR_FW'',
               fmt = ''Starting Sensor Firmware (ESP-IDF + ArduinoJson)'', args = []\<rparr>],
           doc = [(''sensor'', JsonString ''battery''), (''value'', JsonInt 0)]\<rparr>)
   \<and> sampling_loop (reached (app_main_init ESP_OK ESP_OK))
         [(ESP_ERR_TIMEOUT, 0), (ESP_OK, 4095)] =
       loop_body (reached (app_main_init ESP_OK ESP_OK)) (ESP_ERR_TIMEOUT, 0)"
  using loop_body_read_outcome [of ESP_OK "reached (app_main_init ESP_OK ESP_OK)" 4095 "[]"]
    loop_body_read_outcome [of ESP_ERR_TIMEOUT "reached (app_main_init ESP_OK ESP_OK)" 0
      "[(ESP_OK, 4095)]"]
    ESP_ERR_TIMEOUT_not_OK
  by (simp add: app_main_init_ok voltage_of_4095 TAG_def LED_GPIO_def)

text \<open>
  C1, as stated, fails: with both initialisation calls successful and a first analog read
  that times out (\<open>ESP_ERR_TIMEOUT\<close>), the program is aborted in the first iteration and the log
  holds the start-up line only.
\<close>

theorem failed_read_aborts_counterexample:
  "aborted (app_main ESP_OK ESP_OK [(ESP_ERR_TIMEOUT, 0)])
   \<and> map fmt (log_lines (reached (app_main ESP_OK ESP_OK [(ESP_ERR_TIMEOUT, 0)]))) =
       [''Starting Sensor Firmware (ESP-IDF + ArduinoJson)'']"
  by (simp add: app_main_def app_main_init_ok loop_body_fail ESP_ERR_TIMEOUT_not_OK)

subsection \<open>The heartbeat\<close>

lemma sampling_loop_heartbeat:
  "led_history (reached (sampling_loop s reads)) =
     led_history s @ heartbeat_spec (clock_ms s) (iterations_run reads)
   \<and> clock_ms (reached (sampling_loop s reads)) = clock_ms s + 1000 * iterations_run reads
   \<and> aborted (sampling_loop s reads) = (\<exists>r \<in> set reads. fst r \<noteq> ESP_OK)"
proof (induction reads arbitrary: s)
  case Nil
  show ?case by simp
next
  case (Cons r rs)
  obtain rc raw where r: "r = (rc, raw)" by (cases r)
  show ?case
  proof (cases "rc = ESP_OK")
    case True
    then show ?thesis
      using Cons.IH by (simp add: r loop_body_ok)
  next
    case False
    then show ?thesis
      by (simp add: r loop_body_fail)
  qed
qed

lemma iterations_run_all_ok:
  "\<forall>r \<in> set reads. fst r = ESP_OK \<Longrightarrow> iterations_run reads = length reads"
  by (induction reads) auto

text \<open>
  C7, as the code has it. Time is the time spent in the loop's own delays. In every
  iteration that runs, the LED pin is set high, stays high for 100 ms, is set low and
  stays low for 900 ms, so the history of the pin is the heartbeat of the specification
  with a period of 1000 ms, one period per iteration. The iterations follow each other for
  as long as every analog read succeeds: the loop is aborted exactly when a read fails, and
  the iteration of the first failed read is the last one.
\<close>

theorem heartbeat_while_reads_succeed:
  "led_history (reached (sampling_loop s reads)) =
     led_history s @ heartbeat_spec (clock_ms s) (iterations_run reads)
   \<and> clock_ms (reached (sampling_loop s reads)) = clock_ms s + 1000 * iterations_run reads
   \<and> aborted (sampling_loop s reads) = (\<exists>r \<in> set reads. fst r \<noteq> ESP_OK)
   \<and> ((\<forall>r \<in> set reads. fst r = ESP_OK) \<longrightarrow> iterations_run reads = length reads)"
  using sampling_loop_heartbeat [of s reads] iterations_run_all_ok [of reads] by blast

theorem heartbeat_while_reads_succeed_witness:
  "led_history (reached (sampling_loop fw_boot [(ESP_OK, 0), (ESP_OK, 4095)])) =
     [(0, 15, 1), (100, 15, 0), (1000, 15, 1), (1100, 15, 0)]
   \<and> clock_ms (reached (sampling_loop fw_boot [(ESP_OK, 0), (ESP_OK, 4095)])) = 2000
   \<and> \<not> aborted (sampling_loop fw_boot [(ESP_OK, 0), (ESP_OK, 4095)])"
  using heartbeat_while_reads_succeed [of fw_boot "[(ESP_OK, 0), (ESP_OK, 4095)]"]
  by (simp add: fw_boot_def LED_GPIO_def)

text \<open>
  C7, as stated, fails: when the first analog read times out (\<open>ESP_ERR_TIMEOUT\<close>) the pin is pulsed
  once and the program is aborted; the second period never starts although a second read
  would have succeeded.
\<close>

theorem heartbeat_stops_counterexample:
  "led_history (reached (app_main ESP_OK ESP_OK [(ESP_ERR_TIMEOUT, 0), (ESP_OK, 0)])) =
     [(0, 15, 1), (100, 15, 0)]
   \<and> aborted (app_main ESP_OK ESP_OK [(ESP_ERR_TIMEOUT, 0), (ESP_OK, 0)])"
  by (simp add: app_main_def app_main_init_ok loop_body_fail ESP_ERR_TIMEOUT_not_OK LED_GPIO_def)

subsection \<open>The telemetry lines\<close>

lemma sampling_loop_log:
  "\<exists>v. doc s = [(''sensor'', JsonString ''battery''), (''value'', v)] \<Longrightarrow>
   log_lines (reached (sampling_loop s reads)) =
     log_lines s @
     map (\<lambda>r. \<lparr>level = ESP_LOG_INFO, tag = TAG, fmt = ''Telemetry: %s'',
                args = [SerializedJson [(''sensor'', JsonString ''battery''),
                                        (''value'', JsonFloat (voltage_of (snd r)))]]\<rparr>)
       (takeWhile (\<lambda>r. fst r = ESP_OK) reads)"
proof (induction reads arbitrary: s)
  case Nil
  show ?case by simp
next
  case (Cons r rs)
  obtain rc raw where r: "r = (rc, raw)" by (cases r)
  from Cons.prems obtain v
    where d: "doc s = [(''sensor'', JsonString ''battery''), (''value'', v)]"
    by blast
  show ?case
  proof (cases "rc = ESP_OK")
    case True
    then show ?thesis
      using d by (simp add: r loop_body_ok Cons.IH)
  next
    case False
    then show ?thesis
      by (simp add: r loop_body_fail)
  qed
qed

text \<open>
  C8, as the code has it. After the start-up line, the log of a run whose initialisation
  succeeded holds one line for each analog read up to the first failed one, in order. Each
  of these lines has informational severity and the tag \<open>SENSOR_FW\<close>; its text is the
  fixed prefix \<open>Telemetry: \<close> followed by the serialisation of one JSON object with the
  members \<open>sensor\<close>, always the string \<open>battery\<close>, and \<open>value\<close>, the voltage converted
  from the raw value of that read.
\<close>

theorem telemetry_lines:
  "log_lines (reached (app_main ESP_OK ESP_OK reads)) =
     \<lparr>level = ESP_LOG_INFO, tag = ''SENSOR_FW'',
      fmt = ''Starting Sensor Firmware (ESP-IDF + ArduinoJson)'', args = []\<rparr> #
     map (\<lambda>r. \<lparr>level = ESP_LOG_INFO, tag = ''SENSOR_FW'', fmt = ''Telemetry: %s'',
                args = [SerializedJson [(''sensor'', JsonString ''battery''),
                                        (''value'', JsonFloat (voltage_of (snd r)))]]\<rparr>)
       (takeWhile (\<lambda>r. fst r = ESP_OK) reads)"
  by (simp add: app_main_def app_main_init_ok sampling_loop_log TAG_def)

theorem telemetry_lines_witness:
  "log_lines (reached (app_main ESP_OK ESP_OK [(ESP_OK, 4095), (ESP_ERR_TIMEOUT, 7)])) =
     [\<lparr>level = ESP_LOG_INFO, tag = ''SENSOR_FW'',
       fmt = ''Starting Sensor Firmware (ESP-IDF + ArduinoJson)'', args = []\<rparr>,
      \<lparr>level = ESP_LOG_INFO, tag = ''SENSOR_FW'', fmt = ''Telemetry: %s'',
       args = [SerializedJson [(''sensor'', JsonString ''battery''),
                               (''value'', JsonFloat (13841203 / 2097152))]]\<rparr>]"
  using telemetry_lines [of "[(ESP_OK, 4095), (ESP_ERR_TIMEOUT, 7)]"] ESP_ERR_TIMEOUT_not_OK
  by (simp add: voltage_of_4095)

text \<open>
  C8, as stated, fails: the line logged for the raw reading 2048 is not the JSON object
  alone, its format is not \<open>%s\<close> but \<open>Telemetry: %s\<close>.
\<close>

theorem telemetry_prefix_counterexample:
  "fmt (log_lines (reached (app_main ESP_OK ESP_OK [(ESP_OK, 2048)])) ! 1) = ''Telemetry: %s''
   \<and> fmt (log_lines (reached (app_main ESP_OK ESP_OK [(ESP_OK, 2048)])) ! 1) \<noteq> ''%s''"
  by (simp add: app_main_def app_main_init_ok loop_body_ok)

section \<open>Properties of the web dashboard\<close>

subsection \<open>The embedded board configuration\<close>

text \<open>The embedded text is a JSON object; this is its value.\<close>

lemma BOARD_CONFIG_value:
  "BOARD_CONFIG =
     Some (JObj
       [(''name'', JStr ''ESP32-WROOM-32''),
        (''pins'', JArr
          [JObj [(''pin'', JNum 36), (''name'', JStr ''VP/A0''), (''x'', JNum 15), (''y'', JNum 60), (''side'', JStr ''left'')],
           JObj [(''pin'', JNum 39), (''name'', JStr ''VN/A3''), (''x'', JNum 15), (''y'', JNum 75), (''side'', JStr ''left'')],
           JObj [(''pin'', JNum 34), (''name'', JStr ''A6''), (''x'', JNum 15), (''y'', JNum 90), (''side'', JStr ''left'')],
           JObj [(''pin'', JNum 35), (''name'', JStr ''A7''), (''x'', JNum 15), (''y'', JNum 105), (''side'', JStr ''left'')],
           JObj [(''pin'', JNum 32), (''name'', JStr ''A4/T9''), (''x'', JNum 15), (''y'', JNum 120), (''side'', JStr ''left'')],
           JObj [(''pin'', JNum 33), (''name'', JStr ''A5/T8''), (''x'', JNum 15), (''y'', JNum 135), (''side'', JStr ''left'')],
           JObj [(''pin'', JNum 25), (''name'', JStr ''A18/DAC1''), (''x'', JNum 15), (''y'', JNum 150), (''side'', JStr ''left'')],
           JObj [(''pin'', JNum 26), (''name'', JStr ''A19/DAC2''), (''x'', JNum 15), (''y'', JNum 165), (''side'', JStr ''left'')],
           JObj [(''pin'', JNum 27), (''name'', JStr ''A17/T7''), (''x'', JNum 15), (''y'', JNum 180), (''side'', JStr ''left'')],
           JObj [(''pin'', JNum 14), (''name'', JStr ''A16/T6''), (''x'', JNum 15), (''y'', JNum 195), (''side'', JStr ''left'')],
           JObj [(''pin'', JNum 12), (''name'', JStr ''A15/T5''), (''x'', JNum 15), (''y'', JNum 210), (''side'', JStr ''left'')],
           JObj [(''pin'', JNum 13), (''name'', JStr ''A14/T4''), (''x'', JNum 15), (''y'', JNum 225), (''side'', JStr ''left'')],
           JObj [(''pin'', JNum 2), (''name'', JStr ''A12/T2/LED''), (''x'', JNum 275), (''y'', JNum 105), (''side'', JStr ''right'')],
           JObj [(''pin'', JNum 15), (''name'', JStr ''A13/T3''), (''x'', JNum 275), (''y'', JNum 90), (''side'', JStr ''right'')],
           JObj [(''pin'', JNum 0), (''name'', JStr ''BOOT''), (''x'', JNum 275), (''y'', JNum 120), (''side'', JStr ''right'')],
           JObj [(''pin'', JNum 4), (''name'', JStr ''A10/T0''), (''x'', JNum 275), (''y'', JNum 135), (''side'', JStr ''right'')],
           JObj [(''pin'', JNum 16), (''name'', JStr ''RX2''), (''x'', JNum 275), (''y'', JNum 150), (''side'', JStr ''right'')],
           JObj [(''pin'', JNum 17), (''name'', JStr ''TX2''), (''x'', JNum 275), (''y'', JNum 165), (''side'', JStr ''right'')],
           JObj [(''pin'', JNum 5), (''name'', JStr ''SS''), (''x'', JNum 275), (''y'', JNum 180), (''side'', JStr ''right'')],
           JObj [(''pin'', JNum 18), (''name'', JStr ''SCK''), (''x'', JNum 275), (''y'', JNum 195), (''side'', JStr ''right'')],
           JObj [(''pin'', JNum 19), (''name'', JStr ''MISO''), (''x'', JNum 275), (''y'', JNum 210), (''side'', JStr ''right'')],
           JObj [(''pin'', JNum 21), (''name'', JStr ''SDA''), (''x'', JNum 275), (''y'', JNum 225), (''side'', JStr ''right'')],
           JObj [(''pin'', JNum 3), (''name'', JStr ''RX0''), (''x'', JNum 275), (''y'', JNum 240), (''side'', JStr ''right'')],
           JObj [(''pin'', JNum 1), (''name'', JStr ''TX0''), (''x'', JNum 275), (''y'', JNum 255), (''side'', JStr ''right'')],
           JObj [(''pin'', JNum 22), (''name'', JStr ''SCL''), (''x'', JNum 275), (''y'', JNum 270), (''side'', JStr ''right'')],
           JObj [(''pin'', JNum 23), (''name'', JStr ''MOSI''), (''x'', JNum 275), (''y'', JNum 285), (''side'', JStr ''right'')]])])"
  by code_simp

lemma board_pins_value:
  "board_pins =
     [JObj [(''pin'', JNum 36), (''name'', JStr ''VP/A0''), (''x'', JNum 15), (''y'', JNum 60), (''side'', JStr ''left'')],
      JObj [(''pin'', JNum 39), (''name'', JStr ''VN/A3''), (''x'', JNum 15), (''y'', JNum 75), (''side'', JStr ''left'')],
      JObj [(''pin'', JNum 34), (''name'', JStr ''A6''), (''x'', JNum 15), (''y'', JNum 90), (''side'', JStr ''left'')],
      JObj [(''pin'', JNum 35), (''name'', JStr ''A7''), (''x'', JNum 15), (''y'', JNum 105), (''side'', JStr ''left'')],
      JObj [(''pin'', JNum 32), (''name'', JStr ''A4/T9''), (''x'', JNum 15), (''y'', JNum 120), (''side'', JStr ''left'')],
      JObj [(''pin'', JNum 33), (''name'', JStr ''A5/T8''), (''x'', JNum 15), (''y'', JNum 135), (''side'', JStr ''left'')],
      JObj [(''pin'', JNum 25), (''name'', JStr ''A18/DAC1''), (''x'', JNum 15), (''y'', JNum 150), (''side'', JStr ''left'')],
      JObj [(''pin'', JNum 26), (''name'', JStr ''A19/DAC2''), (''x'', JNum 15), (''y'', JNum 165), (''side'', JStr ''left'')],
      JObj [(''pin'', JNum 27), (''name'', JStr ''A17/T7''), (''x'', JNum 15), (''y'', JNum 180), (''side'', JStr ''left'')],
      JObj [(''pin'', JNum 14), (''name'', JStr ''A16/T6''), (''x'', JNum 15), (''y'', JNum 195), (''side'', JStr ''left'')],
      JObj [(''pin'', JNum 12), (''name'', JStr ''A15/T5''), (''x'', JNum 15), (''y'', JNum 210), (''side'', JStr ''left'')],
      JObj [(''pin'', JNum 13), (''name'', JStr ''A14/T4''), (''x'', JNum 15), (''y'', JNum 225), (''side'', JStr ''left'')],
      JObj [(''pin'', JNum 2), (''name'', JStr ''A12/T2/LED''), (''x'', JNum 275), (''y'', JNum 105), (''side'', JStr ''right'')],
      JObj [(''pin'', JNum 15), (''name'', JStr ''A13/T3''), (''x'', JNum 275), (''y'', JNum 90), (''side'', JStr ''right'')],
      JObj [(''pin'', JNum 0), (''name'', JStr ''BOOT''), (''x'', JNum 275), (''y'', JNum 120), (''side'', JStr ''right'')],
      JObj [(''pin'', JNum 4), (''name'', JStr ''A10/T0''), (''x'', JNum 275), (''y'', JNum 135), (''side'', JStr ''right'')],
      JObj [(''pin'', JNum 16), (''name'', JStr ''RX2''), (''x'', JNum 275), (''y'', JNum 150), (''side'', JStr ''right'')],
      JObj [(''pin'', JNum 17), (''name'', JStr ''TX2''), (''x'', JNum 275), (''y'', JNum 165), (''side'', JStr ''right'')],
      JObj [(''pin'', JNum 5), (''name'', JStr ''SS''), (''x'', JNum 275), (''y'', JNum 180), (''side'', JStr ''right'')],
      JObj [(''pin'', JNum 18), (''name'', JStr ''SCK''), (''x'', JNum 275), (''y'', JNum 195), (''side'', JStr ''right'')],
      JObj [(''pin'', JNum 19), (''name'', JStr ''MISO''), (''x'', JNum 275), (''y'', JNum 210), (''side'', JStr ''right'')],
      JObj [(''pin'', JNum 21), (''name'', JStr ''SDA''), (''x'', JNum 275), (''y'', JNum 225), (''side'', JStr ''right'')],
      JObj [(''pin'', JNum 3), (''name'', JStr ''RX0''), (''x'', JNum 275), (''y'', JNum 240), (''side'', JStr ''right'')],
      JObj [(''pin'', JNum 1), (''name'', JStr ''TX0''), (''x'', JNum 275), (''y'', JNum 255), (''side'', JStr ''right'')],
      JObj [(''pin'', JNum 22), (''name'', JStr ''SCL''), (''x'', JNum 275), (''y'', JNum 270), (''side'', JStr ''right'')],
      JObj [(''pin'', JNum 23), (''name'', JStr ''MOSI''), (''x'', JNum 275), (''y'', JNum 285), (''side'', JStr ''right'')]]"
  by (simp add: board_pins_def BOARD_CONFIG_value)

subsection \<open>Where the literals of the generator begin and end\<close>





lemma html_9_config: "html_9 = take 348 html_9 @ ''const BOARD_CONFIG = ''"
  by (simp add: html_9_def)

lemma html_10_config: "html_10 = '';'' @ drop 1 html_10"
  by (simp add: html_10_def)


lemma generateWebInterface_chunks:
  "generateWebInterface String_float sensorName sensorId sensorType mode masterUrl
       firmwareVersion temperature relayState uptime =
     html_1 @ sensorName @ html_2 @ sensorName @ html_3 @
     (if mode = MODE_ONLINE then ''good'' else ''warning'') @ html_4 @
     (if mode = MODE_ONLINE then statusIcon_online else statusIcon_offline) @ html_5 @
     (if mode = MODE_ONLINE then ''Online (Connected to Master)'' else ''Offline (Standalone)'') @
     html_6 @ String_float temperature 1 @ html_7 @ (if relayState then ''ON'' else ''OFF'') @
     html_8 @ nat_to_string uptime @ html_9 @ BOARD_CONFIG_JSON @ html_10"
  by (simp add: generateWebInterface_def Let_def)

text \<open>
  C4. The pin list of the embedded configuration has exactly 26 entries; their pin numbers
  are the 26 numbers listed, pairwise distinct; the side of every entry is \<open>left\<close> or
  \<open>right\<close>; and every generated document, whatever the render context, contains the
  configuration text as the initialiser of \<open>BOARD_CONFIG\<close>.
\<close>

theorem board_config_table:
  "length board_pins = 26
   \<and> map (\<lambda>p. get_prop p ''pin'') board_pins =
       map (\<lambda>n. Inr (JNum n))
         [36, 39, 34, 35, 32, 33, 25, 26, 27, 14, 12, 13, 2, 15, 0, 4, 16, 17, 5, 18, 19, 21, 3, 1, 22, 23]
   \<and> distinct (map (\<lambda>p. get_prop p ''pin'') board_pins)
   \<and> list_all (\<lambda>p. get_prop p ''side'' = Inr (JStr ''left'') \<or>
                     get_prop p ''side'' = Inr (JStr ''right'')) board_pins
   \<and> (\<exists>pre post. generateWebInterface String_float sensorName sensorId sensorType mode masterUrl
              firmwareVersion temperature relayState uptime =
            pre @ ''const BOARD_CONFIG = '' @ BOARD_CONFIG_JSON @ '';'' @ post)"
proof -
  obtain p9 where p9: "html_9 = p9 @ ''const BOARD_CONFIG = ''"
    using html_9_config by blast
  obtain r10 where r10: "html_10 = '';'' @ r10"
    using html_10_config by blast
  have "\<exists>pre post. generateWebInterface String_float sensorName sensorId sensorType mode masterUrl
              firmwareVersion temperature relayState uptime =
            pre @ ''const BOARD_CONFIG = '' @ BOARD_CONFIG_JSON @ '';'' @ post"
    apply (rule exI [where x = "html_1 @ sensorName @ html_2 @ sensorName @ html_3 @
       (if mode = MODE_ONLINE then ''good'' else ''warning'') @ html_4 @
       (if mode = MODE_ONLINE then statusIcon_online else statusIcon_offline) @ html_5 @
       (if mode = MODE_ONLINE then ''Online (Connected to Master)'' else ''Offline (Standalone)'') @
       html_6 @ String_float temperature 1 @ html_7 @ (if relayState then ''ON'' else ''OFF'') @
       html_8 @ nat_to_string uptime @ p9"])
    apply (rule exI [where x = r10])
    apply (simp only: generateWebInterface_chunks)
    apply (subst p9, subst r10)
    apply (simp only: append_assoc append.simps)
    done
  moreover have "length board_pins = 26"
    by (simp add: board_pins_value)
  moreover have pins: "map (\<lambda>p. get_prop p ''pin'') board_pins =
       map (\<lambda>n. Inr (JNum n))
         [36, 39, 34, 35, 32, 33, 25, 26, 27, 14, 12, 13, 2, 15, 0, 4, 16, 17, 5, 18, 19, 21, 3, 1, 22, 23]"
    by (simp add: board_pins_value)
  moreover have "distinct (map (\<lambda>p. get_prop p ''pin'') board_pins)"
    by (simp add: pins)
  moreover have "list_all (\<lambda>p. get_prop p ''side'' = Inr (JStr ''left'') \<or>
                     get_prop p ''side'' = Inr (JStr ''right'')) board_pins"
    by (simp add: board_pins_value)
  ultimately show ?thesis by blast
qed

theorem board_config_table_witness:
  "length board_pins = 26
   \<and> distinct (map (\<lambda>p. get_prop p ''pin'') board_pins)
   \<and> (\<exists>pre post. generateWebInterface (\<lambda>t n. ''21.5'') ''Kitchen'' ''esp32-01'' ''DS18B20'' MODE_ONLINE
       ''http://master.local'' ''1.0.0'' (FloatFinite (43 / 2)) True 3600 =
         pre @ ''const BOARD_CONFIG = '' @ BOARD_CONFIG_JSON @ '';'' @ post)"
  using board_config_table [of "\<lambda>t n. ''21.5''" "''Kitchen''" "''esp32-01''" "''DS18B20''"
      MODE_ONLINE "''http://master.local''" "''1.0.0''" "FloatFinite (43 / 2)" True 3600]
  by blast

subsection \<open>The fields of the generated document\<close>








subsection \<open>The script's pin-state update\<close>

lemma strict_eq_JStr [simp]: "strict_eq a (JStr s) = (a = JStr s)"
  by (cases a) auto

lemma strict_eq_JNum [simp]: "strict_eq a (JNum n) = (a = JNum n)"
  by (cases a) auto


lemma pinControls_classList [simp]:
  "pinControls (classList_add i c d) = pinControls d"
  "pinControls (classList_remove i c d) = pinControls d"
  "pinControls (console_error m d) = pinControls d"
  by (simp_all add: classList_add_def classList_remove_def console_error_def)

text \<open>
  What a pin entry does to the container: nothing, or one control block appended, and
  that only for an entry of type \<open>gpio_write\<close> that is processed without an exception.
\<close>

lemma process_pin_controls:
  "process_pin big d pin = Inr d' \<Longrightarrow>
   pinControls d' = pinControls d \<or>
   (\<exists>h. get_prop pin ''type'' = Inr (JStr ''gpio_write'') \<and>
        pinControls d' = pinControls d @ [Element ''pin-control'' h])"
  by (auto simp add: process_pin_def appendChild_def Let_def
      split: sum.splits option.splits if_splits)

lemma process_pin_throws:
  "process_pin big d pin = Inl (e, d') \<Longrightarrow> pinControls d' = pinControls d"
  by (auto simp add: process_pin_def Let_def split: sum.splits option.splits if_splits)

lemma process_pin_no_write:
  "process_pin big d pin = Inr d' \<Longrightarrow> get_prop pin ''type'' \<noteq> Inr (JStr ''gpio_write'') \<Longrightarrow>
   pinControls d' = pinControls d"
  using process_pin_controls by blast

lemma forEach_pins_no_write:
  "\<forall>p \<in> set ps. get_prop p ''type'' \<noteq> Inr (JStr ''gpio_write'') \<Longrightarrow>
   (case forEach_pins big d ps of Inl (e, d') \<Rightarrow> pinControls d' | Inr d' \<Rightarrow> pinControls d') =
     pinControls d"
proof (induction ps arbitrary: d)
  case Nil
  show ?case by simp
next
  case (Cons p ps)
  show ?case
  proof (cases "process_pin big d p")
    case (Inl a)
    obtain e d1 where a: "a = (e, d1)" by (cases a)
    with Inl show ?thesis
      by (simp add: process_pin_throws)
  next
    case (Inr d1)
    with Cons.prems have "pinControls d1 = pinControls d"
      by (simp add: process_pin_no_write)
    moreover from Cons.prems have "\<forall>p \<in> set ps. get_prop p ''type'' \<noteq> Inr (JStr ''gpio_write'')"
      by simp
    ultimately show ?thesis
      using Cons.IH [of d1] Inr by simp
  qed
qed

lemma forEach_pins_only_controls:
  "set (case forEach_pins big d ps of Inl (e, d') \<Rightarrow> pinControls d' | Inr d' \<Rightarrow> pinControls d')
     \<subseteq> set (pinControls d) \<union> {n. is_control n}"
proof (induction ps arbitrary: d)
  case Nil
  show ?case by simp
next
  case (Cons p ps)
  show ?case
  proof (cases "process_pin big d p")
    case (Inl a)
    obtain e d1 where a: "a = (e, d1)" by (cases a)
    with Inl show ?thesis
      by (simp add: process_pin_throws)
  next
    case (Inr d1)
    from process_pin_controls [OF Inr]
    have "set (pinControls d1) \<subseteq> set (pinControls d) \<union> {n. is_control n}"
      by auto
    then show ?thesis
      using Cons.IH [of d1] Inr by auto
  qed
qed

lemma heading_not_placeholder:
  "Markup (pin_controls_heading @ no_pins_placeholder) \<noteq> Markup pin_controls_heading"
  by (simp add: no_pins_placeholder_def)

lemma updatePinStates_array:
  "get_prop data ''pins'' = Inr (JArr ps) \<Longrightarrow> ps \<noteq> [] \<Longrightarrow>
   updatePinStates big (Some data) d =
     (case forEach_pins big (d\<lparr>pinControls := [Markup pin_controls_heading]\<rparr>) ps of
        Inl (e, d2) \<Rightarrow> Some (console_error ''Failed to fetch pin states'' d2)
      | Inr d2 \<Rightarrow> Some d2)"
  by (simp add: updatePinStates_def)

lemma updatePinStates_empty:
  "get_prop data ''pins'' = Inr (JArr []) \<Longrightarrow>
   updatePinStates big (Some data) d =
     Some (d\<lparr>pinControls := [Markup (pin_controls_heading @ no_pins_placeholder)]\<rparr>)"
  by (simp add: updatePinStates_def innerHTML_append_def)

lemma updatePinStates_absent:
  "get_prop data ''pins'' = Inr JUndefined \<or> get_prop data ''pins'' = Inr JNull \<Longrightarrow>
   updatePinStates big (Some data) d =
     Some (d\<lparr>pinControls := [Markup (pin_controls_heading @ no_pins_placeholder)]\<rparr>)"
  by (auto simp add: updatePinStates_def innerHTML_append_def)

text \<open>
  The text of a pin number and of an alias for a response of the documented shape: a
  number converts without an exception, a safe integer to its decimal digits; an absent
  or empty alias gives no text, any other string that string in parentheses.
\<close>

lemma ToString_number: "ToString big (JNum n) = Inr (Number_toString big n)"
  by simp

lemma Number_toString_safe:
  "\<bar>n\<bar> \<le> 9007199254740991 \<Longrightarrow> Number_toString big n = int_to_string n"
  by (simp add: Number_toString_def)

lemma alias_text_shape:
  "alias_text big JUndefined = Inr []"
  "alias_text big (JStr a) = Inr (if a = [] then [] else ''('' @ a @ '')'')"
  by (simp_all add: alias_text_def js_bind_def)

text \<open>The markers \<open>initBoard\<close> creates from the embedded configuration.\<close>

lemma nat_to_string_numeral [simp]:
  "nat_to_string (numeral k) =
     (if numeral k < (10 :: nat) then [digit_char (numeral k)]
      else nat_to_string (numeral k div 10) @ [digit_char (numeral k mod 10)])"
  by (subst nat_to_string.simps) simp

lemma nat_to_string_0 [simp]: "nat_to_string 0 = ''0''"
  by (subst nat_to_string.simps) (simp add: digit_char_def)

lemma nat_to_string_1 [simp]: "nat_to_string (Suc 0) = ''1''"
  by (subst nat_to_string.simps) (simp add: digit_char_def)

lemma loaded_dom:
  "initBoard_markers big board_pins initial_dom =
     Inr \<lparr>markers =
       [(''pin-36'', [''pin'', ''pin-left'']),
        (''pin-39'', [''pin'', ''pin-left'']),
        (''pin-34'', [''pin'', ''pin-left'']),
        (''pin-35'', [''pin'', ''pin-left'']),
        (''pin-32'', [''pin'', ''pin-left'']),
        (''pin-33'', [''pin'', ''pin-left'']),
        (''pin-25'', [''pin'', ''pin-left'']),
        (''pin-26'', [''pin'', ''pin-left'']),
        (''pin-27'', [''pin'', ''pin-left'']),
        (''pin-14'', [''pin'', ''pin-left'']),
        (''pin-12'', [''pin'', ''pin-left'']),
        (''pin-13'', [''pin'', ''pin-left'']),
        (''pin-2'', [''pin'', ''pin-right'']),
        (''pin-15'', [''pin'', ''pin-right'']),
        (''pin-0'', [''pin'', ''pin-right'']),
        (''pin-4'', [''pin'', ''pin-right'']),
        (''pin-16'', [''pin'', ''pin-right'']),
        (''pin-17'', [''pin'', ''pin-right'']),
        (''pin-5'', [''pin'', ''pin-right'']),
        (''pin-18'', [''pin'', ''pin-right'']),
        (''pin-19'', [''pin'', ''pin-right'']),
        (''pin-21'', [''pin'', ''pin-right'']),
        (''pin-3'', [''pin'', ''pin-right'']),
        (''pin-1'', [''pin'', ''pin-right'']),
        (''pin-22'', [''pin'', ''pin-right'']),
        (''pin-23'', [''pin'', ''pin-right''])],
       pinControls = [], console = []\<rparr>"
  by (simp add: board_pins_value initial_dom_def make_marker_def js_bind_def
      Number_toString_def int_to_string_def digit_char_def class_tokens_def is_space_def)

text \<open>
  C3. When the response holds a pin list with exactly one entry, of type \<open>gpio_write\<close>
  and in state \<open>LOW\<close>, whose pin and alias convert to text (as every number and every
  string does), the update leaves exactly one control block in the container. Its inner
  HTML is the template of the script with \<open>btn btn-secondary\<close>, the neutral style, as
  the class of the HIGH button and \<open>btn btn-danger\<close>, the highlighted style, as the
  class of the LOW button.
\<close>

theorem write_pin_low_control:
  assumes "get_prop data ''pins'' = Inr (JArr [pin])"
    and "get_prop pin ''type'' = Inr (JStr ''gpio_write'')"
    and "get_prop pin ''state'' = Inr (JStr ''LOW'')"
    and "get_prop pin ''pin'' = Inr pin_no"
    and "ToString big pin_no = Inr pin_s"
    and "get_prop pin ''alias'' = Inr alias"
    and "alias_text big alias = Inr alias_s"
  shows \<open>map_option control_blocks (updatePinStates big (Some data) d) =
           Some [Element ''pin-control''
             (''\<newline>'' @
              ''            <div class='pin-control-header'>\<newline>'' @
              ''              <span>Pin '' @ pin_s @ '' '' @ alias_s @ ''</span>\<newline>'' @
              ''              <span style='font-size: 0.8em; color: #718096;'>gpio_write</span>\<newline>'' @
              ''            </div>\<newline>'' @
              ''            <button class='btn btn-secondary' \<newline>'' @
              ''                    onclick='setPinState('' @ pin_s @ '', "HIGH")'>HIGH</button>\<newline>'' @
              ''            <button class='btn btn-danger' \<newline>'' @
              ''                    onclick='setPinState('' @ pin_s @ '', "LOW")'>LOW</button>\<newline>'' @
              ''          '')]\<close>
proof -
  let ?d1 = "d\<lparr>pinControls := [Markup pin_controls_heading]\<rparr>"
  have "\<exists>d'. process_pin big ?d1 pin = Inr d'
          \<and> pinControls d' =
              [Markup pin_controls_heading,
               Element ''pin-control''
                 (control_html pin_s alias_s ''gpio_write'' ''btn-secondary'' ''btn-danger'')]"
    using assms
    by (simp add: process_pin_def control_innerHTML_def js_bind_def Let_def appendChild_def
        split: option.splits)
  then have "map_option control_blocks (updatePinStates big (Some data) d) =
      Some [Element ''pin-control''
              (control_html pin_s alias_s ''gpio_write'' ''btn-secondary'' ''btn-danger'')]"
    using assms(1) by (auto simp add: updatePinStates_array control_blocks_def)
  then show ?thesis
    by (simp add: control_html_def)
qed

theorem write_pin_low_control_witness:
  \<open>map_option control_blocks
     (updatePinStates (\<lambda>n. ''1e+21'')
        (Some (JObj [(''pins'', JArr [JObj [(''pin'', JNum 2), (''state'', JStr ''LOW''), (''type'', JStr ''gpio_write'')]])]))
        initial_dom) =
   Some [Element ''pin-control''
          (''\<newline>'' @
              ''            <div class='pin-control-header'>\<newline>'' @
              ''              <span>Pin 2 </span>\<newline>'' @
              ''              <span style='font-size: 0.8em; color: #718096;'>gpio_write</span>\<newline>'' @
              ''            </div>\<newline>'' @
              ''            <button class='btn btn-secondary' \<newline>'' @
              ''                    onclick='setPinState(2, "HIGH")'>HIGH</button>\<newline>'' @
              ''            <button class='btn btn-danger' \<newline>'' @
              ''                    onclick='setPinState(2, "LOW")'>LOW</button>\<newline>'' @
              ''          '')]\<close>
  using write_pin_low_control
    [of "JObj [(''pins'', JArr [JObj [(''pin'', JNum 2), (''state'', JStr ''LOW''), (''type'', JStr ''gpio_write'')]])]"
        "JObj [(''pin'', JNum 2), (''state'', JStr ''LOW''), (''type'', JStr ''gpio_write'')]"
        "JNum 2" "(\<lambda>n. ''1e+21'')" "''2''" JUndefined "[]" initial_dom]
  by (simp add: Number_toString_def int_to_string_def digit_char_def alias_text_def)

text \<open>
  C6. When the pin list of the response is empty, the container holds the heading followed
  by the placeholder text, and no control block.
\<close>

theorem empty_pin_list_placeholder:
  assumes "get_prop data ''pins'' = Inr (JArr [])"
  shows "map_option pinControls (updatePinStates big (Some data) d) =
           Some [Markup (pin_controls_heading @ no_pins_placeholder)]
         \<and> map_option placeholder_shown (updatePinStates big (Some data) d) = Some True
         \<and> map_option control_blocks (updatePinStates big (Some data) d) = Some []"
  using assms by (simp add: updatePinStates_empty placeholder_shown_def control_blocks_def)

theorem empty_pin_list_placeholder_witness:
  "map_option pinControls
     (updatePinStates (\<lambda>n. ''1e+21'') (Some (JObj [(''pins'', JArr [])])) initial_dom) =
     Some [Markup (pin_controls_heading @ no_pins_placeholder)]
   \<and> map_option control_blocks
       (updatePinStates (\<lambda>n. ''1e+21'') (Some (JObj [(''pins'', JArr [])])) initial_dom) = Some []"
  using empty_pin_list_placeholder [of "JObj [(''pins'', JArr [])]" "(\<lambda>n. ''1e+21'')" initial_dom]
  by simp



text \<open>
  C10. When the response holds a pin list, the update succeeds, and the placeholder is in
  the container exactly when the list is empty. When the list is not empty and none of its
  entries has the type \<open>gpio_write\<close>, the container holds the heading alone: no control
  block and no placeholder. The placeholder is also shown when \<open>pins\<close> is absent or
  \<open>null\<close>.
\<close>

theorem placeholder_only_for_empty_list:
  "(get_prop data ''pins'' = Inr (JArr ps) \<longrightarrow>
      (\<exists>d'. updatePinStates big (Some data) d = Some d'
         \<and> (placeholder_shown d' \<longleftrightarrow> ps = [])
         \<and> (ps \<noteq> [] \<and> (\<forall>p \<in> set ps. get_prop p ''type'' \<noteq> Inr (JStr ''gpio_write'')) \<longrightarrow>
              pinControls d' = [Markup pin_controls_heading] \<and> control_blocks d' = [])))
   \<and> (get_prop data ''pins'' = Inr JUndefined \<or> get_prop data ''pins'' = Inr JNull \<longrightarrow>
      (\<exists>d'. updatePinStates big (Some data) d = Some d' \<and> placeholder_shown d'))"
proof (intro conjI impI)
  assume pins: "get_prop data ''pins'' = Inr (JArr ps)"
  let ?d1 = "d\<lparr>pinControls := [Markup pin_controls_heading]\<rparr>"
  show "\<exists>d'. updatePinStates big (Some data) d = Some d'
         \<and> (placeholder_shown d' \<longleftrightarrow> ps = [])
         \<and> (ps \<noteq> [] \<and> (\<forall>p \<in> set ps. get_prop p ''type'' \<noteq> Inr (JStr ''gpio_write'')) \<longrightarrow>
              pinControls d' = [Markup pin_controls_heading] \<and> control_blocks d' = [])"
  proof (cases "ps = []")
    case True
    then show ?thesis
      using pins by (simp add: updatePinStates_empty placeholder_shown_def)
  next
    case False
    obtain d2 where d2: "updatePinStates big (Some data) d = Some d2"
      and pc: "pinControls d2 =
        (case forEach_pins big ?d1 ps of Inl (e, d') \<Rightarrow> pinControls d' | Inr d' \<Rightarrow> pinControls d')"
      using pins False
      by (cases "forEach_pins big ?d1 ps") (auto simp add: updatePinStates_array)
    have "set (pinControls d2) \<subseteq> {Markup pin_controls_heading} \<union> {n. is_control n}"
      using forEach_pins_only_controls [of big ?d1 ps] pc by simp
    then have "\<not> placeholder_shown d2"
      using heading_not_placeholder by (auto simp add: placeholder_shown_def)
    moreover have "pinControls d2 = [Markup pin_controls_heading] \<and> control_blocks d2 = []"
      if "\<forall>p \<in> set ps. get_prop p ''type'' \<noteq> Inr (JStr ''gpio_write'')"
      using forEach_pins_no_write [OF that, of big ?d1] pc by (simp add: control_blocks_def)
    ultimately show ?thesis
      using d2 False by simp
  qed
next
  assume "get_prop data ''pins'' = Inr JUndefined \<or> get_prop data ''pins'' = Inr JNull"
  then show "\<exists>d'. updatePinStates big (Some data) d = Some d' \<and> placeholder_shown d'"
    by (simp add: updatePinStates_absent placeholder_shown_def)
qed

theorem placeholder_only_for_empty_list_witness:
  "\<exists>d'. updatePinStates (\<lambda>n. ''1e+21'')
          (Some (JObj [(''pins'', JArr [JObj [(''pin'', JNum 4), (''state'', JStr ''HIGH''), (''type'', JStr ''gpio_read'')]])]))
          initial_dom = Some d'
     \<and> \<not> placeholder_shown d'
     \<and> pinControls d' = [Markup pin_controls_heading]
     \<and> control_blocks d' = []"
  using placeholder_only_for_empty_list
    [of "JObj [(''pins'', JArr [JObj [(''pin'', JNum 4), (''state'', JStr ''HIGH''), (''type'', JStr ''gpio_read'')]])]"
        "[JObj [(''pin'', JNum 4), (''state'', JStr ''HIGH''), (''type'', JStr ''gpio_read'')]]"
        "(\<lambda>n. ''1e+21'')" initial_dom]
  by auto

end
